theory Spec2Isabelle
  imports Complex_Main
begin

section \<open>JavaScript values\<close>

text \<open>
  The handlers of \<^verbatim>\<open>src/index.ts\<close> work on untyped values (\<^verbatim>\<open>any\<close>): the JSON the
  upstream API returned and the object literals built from it. A number is a double:
  a finite one is the rational it stands for, and there are the two infinities and NaN.
  A sum and a quotient are rounded to the nearest double, as the language has it; the
  negative zero is not told from zero. A string is the list of its code units, and the
  model covers the code units below 256.

  The handlers \<^verbatim>\<open>overview\<close>, \<^verbatim>\<open>trending\<close>, \<^verbatim>\<open>repo-stats\<close>, \<^verbatim>\<open>search\<close> and
  \<^verbatim>\<open>compare\<close> are modelled, with \<^verbatim>\<open>fetchGitHub\<close> and \<^verbatim>\<open>formatRepo\<close>. The handler
  \<^verbatim>\<open>releases\<close>, the icon and the registration document are not: no property below is
  about them.
\<close>

datatype jsnum = Fin rat | PInf | NInf | NaN

datatype jsval =
    JUndefined
  | JNull
  | JBool bool
  | JNum jsnum
  | JStr string
  | JArr "jsval list"
  | JObj "(string \<times> jsval) list"

text \<open>
  A thrown value. \<open>Error m\<close> is \<^verbatim>\<open>new Error(m)\<close>; the other constructors are the
  errors the platform raises, each with the message the platform gave it.
\<close>

datatype error =
    Error string
  | TypeError string
  | RangeError string
  | SyntaxError string

fun message :: "error \<Rightarrow> string" where
  "message (Error m) = m"
| "message (TypeError m) = m"
| "message (RangeError m) = m"
| "message (SyntaxError m) = m"

text \<open>The response of the platform's \<^verbatim>\<open>fetch\<close>: \<^verbatim>\<open>ok\<close>, \<^verbatim>\<open>status\<close>, and what
  \<^verbatim>\<open>text()\<close> and \<^verbatim>\<open>json()\<close> resolve to or reject with.\<close>

record response =
  ok :: bool
  status :: nat
  body_text :: "error + string"
  body_json :: "error + jsval"

text \<open>
  What the program takes from its platform and its environment: the network, the
  process environment, the clock, and the parts of the language's library whose result
  is left to the implementation or depends on doubles.
  \<^item> \<open>fetch url headers\<close>: the platform's \<^verbatim>\<open>fetch\<close>, a function of the request;
  \<^item> \<open>GITHUB_TOKEN\<close>: \<^verbatim>\<open>process.env.GITHUB_TOKEN\<close>;
  \<^item> \<open>Date_now k\<close>: the time value, in milliseconds since the epoch, of the
    \<open>k\<close>-th \<^verbatim>\<open>new Date()\<close> of a handler's run;
  \<^item> \<open>Date_parse\<close>: \<^verbatim>\<open>Date.parse\<close> on a string;
  \<^item> \<open>StringToNumber\<close>: the number a string converts to;
  \<^item> \<open>NumberToString\<close>: the text of a finite number that is not an integer below
    \<open>2^53\<close> in magnitude;
  \<^item> \<open>TypeErrorMessage\<close>: the message of the TypeError raised at an expression.
\<close>

record world =
  fetch :: "string \<Rightarrow> (string \<times> string) list \<Rightarrow> error + response"
  GITHUB_TOKEN :: "string option"
  Date_now :: "nat \<Rightarrow> int"
  Date_parse :: "string \<Rightarrow> jsnum"
  StringToNumber :: "string \<Rightarrow> jsnum"
  NumberToString :: "rat \<Rightarrow> string"
  TypeErrorMessage :: "string \<Rightarrow> string"

subsection \<open>Failure\<close>

text \<open>
  A computation that may throw is a value of \<open>error + 'a\<close>. \<open>then_do m f\<close> runs
  \<open>f\<close> on the result of \<open>m\<close>, and is the error of \<open>m\<close> when \<open>m\<close> throws: the
  sequencing of statements, and \<^verbatim>\<open>await\<close> on a promise that may reject.
\<close>

fun then_do :: "'e + 'a \<Rightarrow> ('a \<Rightarrow> 'e + 'b) \<Rightarrow> 'e + 'b" where
  "then_do (Inl e) f = Inl e"
| "then_do (Inr x) f = f x"

fun map_try :: "('a \<Rightarrow> 'e + 'b) \<Rightarrow> 'a list \<Rightarrow> 'e + 'b list" where
  "map_try f [] = Inr []"
| "map_try f (x # xs) = then_do (f x) (\<lambda>y. then_do (map_try f xs) (\<lambda>ys. Inr (y # ys)))"

subsection \<open>Property access\<close>

fun nullish :: "jsval \<Rightarrow> bool" where
  "nullish JUndefined = True"
| "nullish JNull = True"
| "nullish _ = False"

text \<open>
  \<open>get v k\<close> is \<^verbatim>\<open>v.k\<close> for a value that is neither null nor undefined and a key
  \<open>k\<close> that no prototype defines (every key this program reads is one: none is
  \<^verbatim>\<open>length\<close>, an index or a method name). An object holds its own properties, looked up
  by key; a boolean, a number, a string or an array has no such property.
\<close>

fun get :: "jsval \<Rightarrow> string \<Rightarrow> jsval" where
  "get (JObj kvs) k = (case map_of kvs k of None \<Rightarrow> JUndefined | Some v \<Rightarrow> v)"
| "get _ k = JUndefined"

text \<open>\<^verbatim>\<open>v.k\<close>: a TypeError on null and undefined.\<close>

definition get_member :: "world \<Rightarrow> jsval \<Rightarrow> string \<Rightarrow> error + jsval" where
  "get_member w v k =
     (if nullish v then Inl (TypeError (TypeErrorMessage w k)) else Inr (get v k))"

text \<open>\<^verbatim>\<open>v?.k\<close>: undefined on null and undefined.\<close>

definition opt_chain :: "jsval \<Rightarrow> string \<Rightarrow> jsval" where
  "opt_chain v k = (if nullish v then JUndefined else get v k)"

subsection \<open>Truthiness and \<^verbatim>\<open>||\<close>\<close>

fun truthy :: "jsval \<Rightarrow> bool" where
  "truthy JUndefined = False"
| "truthy JNull = False"
| "truthy (JBool b) = b"
| "truthy (JNum n) = (n \<noteq> Fin 0 \<and> n \<noteq> NaN)"
| "truthy (JStr s) = (s \<noteq> [])"
| "truthy (JArr _) = True"
| "truthy (JObj _) = True"

definition js_or :: "jsval \<Rightarrow> jsval \<Rightarrow> jsval" where
  "js_or a b = (if truthy a then a else b)"

subsection \<open>Numbers and strings\<close>

definition digit_char :: "nat \<Rightarrow> char" where
  "digit_char n = ''0123456789ABCDEF'' ! (n mod 16)"

fun digits :: "nat \<Rightarrow> string" where
  "digits n = (if n < 10 then [digit_char n] else digits (n div 10) @ [digit_char (n mod 10)])"

declare digits.simps [simp del]

text \<open>
  \<^verbatim>\<open>String(n)\<close> and \<^verbatim>\<open>`${n}`\<close> for a number. The language prints the shortest
  decimal that reads back as the same double: for an integer below \<open>2^53\<close> in
  magnitude that is all of its digits; the text of any other finite number is left to
  the world.
\<close>

definition number_to_string :: "world \<Rightarrow> jsnum \<Rightarrow> string" where
  "number_to_string w n =
     (case n of
        NaN \<Rightarrow> ''NaN''
      | PInf \<Rightarrow> ''Infinity''
      | NInf \<Rightarrow> ''-Infinity''
      | Fin q \<Rightarrow>
          if of_int \<lfloor>q\<rfloor> = q \<and> \<bar>q\<bar> < 2 ^ 53
          then (if q < 0 then ''-'' else '''') @ digits (nat \<bar>\<lfloor>q\<rfloor>\<bar>)
          else NumberToString w q)"

text \<open>
  The conversion of a value to a string. An array joins its elements with commas, null
  and undefined as the empty string. A parsed object has \<^verbatim>\<open>Object.prototype\<close> as its
  prototype: it is \<^verbatim>\<open>[object Object]\<close>, unless an own property named \<^verbatim>\<open>toString\<close>
  (never a function, in parsed JSON) hides the inherited method, and then no method
  gives a primitive and the conversion raises a TypeError.
\<close>

fun ToString :: "world \<Rightarrow> jsval \<Rightarrow> error + string"
  and join :: "world \<Rightarrow> jsval list \<Rightarrow> error + string" where
  "ToString w JUndefined = Inr ''undefined''"
| "ToString w JNull = Inr ''null''"
| "ToString w (JBool b) = Inr (if b then ''true'' else ''false'')"
| "ToString w (JNum n) = Inr (number_to_string w n)"
| "ToString w (JStr s) = Inr s"
| "ToString w (JArr xs) = join w xs"
| "ToString w (JObj kvs) =
     (if ''toString'' \<in> fst ` set kvs
      then Inl (TypeError (TypeErrorMessage w ''toString''))
      else Inr ''[object Object]'')"
| "join w [] = Inr ''''"
| "join w (x # xs) =
     (case (if nullish x then Inr '''' else ToString w x) of
        Inl e \<Rightarrow> Inl e
      | Inr s \<Rightarrow>
          if xs = [] then Inr s
          else (case join w xs of Inl e \<Rightarrow> Inl e | Inr t \<Rightarrow> Inr (s @ '','' @ t)))"

text \<open>ToPrimitive: a primitive is itself, an array or an object is its string.\<close>

fun ToPrimitive :: "world \<Rightarrow> jsval \<Rightarrow> error + jsval" where
  "ToPrimitive w (JArr xs) = then_do (ToString w (JArr xs)) (\<lambda>s. Inr (JStr s))"
| "ToPrimitive w (JObj kvs) = then_do (ToString w (JObj kvs)) (\<lambda>s. Inr (JStr s))"
| "ToPrimitive w v = Inr v"

text \<open>ToNumber of a primitive.\<close>

fun prim_to_number :: "world \<Rightarrow> jsval \<Rightarrow> jsnum" where
  "prim_to_number w JUndefined = NaN"
| "prim_to_number w JNull = Fin 0"
| "prim_to_number w (JBool b) = (if b then Fin 1 else Fin 0)"
| "prim_to_number w (JNum n) = n"
| "prim_to_number w (JStr s) = StringToNumber w s"
| "prim_to_number w _ = NaN"

definition ToNumber :: "world \<Rightarrow> jsval \<Rightarrow> error + jsnum" where
  "ToNumber w v = then_do (ToPrimitive w v) (\<lambda>p. Inr (prim_to_number w p))"

fun num_less :: "jsnum \<Rightarrow> jsnum \<Rightarrow> bool" where
  "num_less NaN _ = False"
| "num_less _ NaN = False"
| "num_less (Fin a) (Fin b) = (a < b)"
| "num_less (Fin a) PInf = True"
| "num_less (Fin a) NInf = False"
| "num_less PInf _ = False"
| "num_less NInf NInf = False"
| "num_less NInf _ = True"

text \<open>
  The rounding of a real result to a double (IEEE 754 binary64, to the nearest, a tie to
  the even significand). \<open>floor_log2 n\<close> is the position of the leading binary digit
  of a positive integer, and \<open>exponent q\<close>, for a positive \<open>q\<close>, the \<open>e\<close> with
  \<open>2^e \<le> q < 2^(e+1)\<close>. A double has 53 significant binary digits, and its exponent
  is at least \<open>-1022\<close>: \<open>q\<close> is rounded to a multiple of \<open>2^(e-52)\<close>, for the
  larger of the two. A result of magnitude \<open>2^1024\<close> or more is an infinity.
\<close>

function floor_log2 :: "int \<Rightarrow> nat" where
  "floor_log2 n = (if n < 2 then 0 else Suc (floor_log2 (n div 2)))"
  by pat_completeness auto

termination
  by (relation "measure nat") auto

declare floor_log2.simps [simp del]

definition exponent :: "rat \<Rightarrow> int" where
  "exponent q =
     (if 1 \<le> q then int (floor_log2 \<lfloor>q\<rfloor>)
      else - int (Suc (floor_log2 (\<lceil>1 / q\<rceil> - 1))))"

definition round_half_even :: "rat \<Rightarrow> int" where
  "round_half_even y =
     (let f = \<lfloor>y\<rfloor>; d = y - of_int f
      in if d < 1 / 2 then f else if 1 / 2 < d then f + 1 else if even f then f else f + 1)"

definition to_double :: "rat \<Rightarrow> jsnum" where
  "to_double q =
     (if q = 0 then Fin 0
      else
        let e = max (exponent \<bar>q\<bar>) (- 1022);
            ulp = power_int 2 (e - 52);
            r = of_int (round_half_even (\<bar>q\<bar> / ulp)) * ulp
        in if 2 ^ 1024 \<le> r then (if 0 < q then PInf else NInf)
           else Fin (sgn q * r))"

text \<open>\<^verbatim>\<open>a + b\<close> on numbers: the sum of two doubles, rounded.\<close>

fun num_add :: "jsnum \<Rightarrow> jsnum \<Rightarrow> jsnum" where
  "num_add NaN _ = NaN"
| "num_add _ NaN = NaN"
| "num_add (Fin a) (Fin b) = to_double (a + b)"
| "num_add (Fin a) PInf = PInf"
| "num_add (Fin a) NInf = NInf"
| "num_add PInf NInf = NaN"
| "num_add PInf _ = PInf"
| "num_add NInf PInf = NaN"
| "num_add NInf _ = NInf"

text \<open>\<^verbatim>\<open>a / b\<close> on numbers: the quotient of two doubles, rounded; a zero divisor is
  the positive zero.\<close>

fun num_div :: "jsnum \<Rightarrow> jsnum \<Rightarrow> jsnum" where
  "num_div NaN _ = NaN"
| "num_div _ NaN = NaN"
| "num_div (Fin a) (Fin b) =
     (if b = 0 then (if a = 0 then NaN else if 0 < a then PInf else NInf)
      else to_double (a / b))"
| "num_div (Fin a) _ = Fin 0"
| "num_div PInf (Fin b) = (if 0 \<le> b then PInf else NInf)"
| "num_div NInf (Fin b) = (if 0 \<le> b then NInf else PInf)"
| "num_div _ _ = NaN"

text \<open>\<^verbatim>\<open>Math.round\<close>: the nearest integer, a half rounded up; the result is exact.\<close>

fun Math_round :: "jsnum \<Rightarrow> jsnum" where
  "Math_round (Fin q) = Fin (of_int \<lfloor>q + 1 / 2\<rfloor>)"
| "Math_round n = n"

fun str_less :: "string \<Rightarrow> string \<Rightarrow> bool" where
  "str_less _ [] = False"
| "str_less [] (y # ys) = True"
| "str_less (x # xs) (y # ys) =
     ((of_char x :: nat) < of_char y \<or> (x = y \<and> str_less xs ys))"

fun is_string :: "jsval \<Rightarrow> bool" where
  "is_string (JStr _) = True"
| "is_string _ = False"

text \<open>The comparison of two primitives: two strings by code units, anything else as
  numbers, false when either is NaN.\<close>

fun prim_less :: "world \<Rightarrow> jsval \<Rightarrow> jsval \<Rightarrow> bool" where
  "prim_less w (JStr s) (JStr t) = str_less s t"
| "prim_less w a b = num_less (prim_to_number w a) (prim_to_number w b)"

text \<open>\<^verbatim>\<open>a > b\<close>.\<close>

definition js_gt :: "world \<Rightarrow> jsval \<Rightarrow> jsval \<Rightarrow> error + bool" where
  "js_gt w a b =
     then_do (ToPrimitive w a) (\<lambda>pa.
     then_do (ToPrimitive w b) (\<lambda>pb.
     Inr (prim_less w pb pa)))"

text \<open>\<^verbatim>\<open>a + b\<close>: concatenation when either side is a string, else the sum.\<close>

definition js_add :: "world \<Rightarrow> jsval \<Rightarrow> jsval \<Rightarrow> error + jsval" where
  "js_add w a b =
     then_do (ToPrimitive w a) (\<lambda>pa.
     then_do (ToPrimitive w b) (\<lambda>pb.
     if is_string pa \<or> is_string pb
     then then_do (ToString w pa) (\<lambda>s. then_do (ToString w pb) (\<lambda>t. Inr (JStr (s @ t))))
     else Inr (JNum (num_add (prim_to_number w pa) (prim_to_number w pb)))))"

text \<open>\<^verbatim>\<open>a / b\<close>.\<close>

definition js_div :: "world \<Rightarrow> jsval \<Rightarrow> jsval \<Rightarrow> error + jsnum" where
  "js_div w a b =
     then_do (ToNumber w a) (\<lambda>x.
     then_do (ToNumber w b) (\<lambda>y.
     Inr (num_div x y)))"

subsection \<open>Methods and object literals\<close>

text \<open>
  \<^verbatim>\<open>v.slice(0, n)\<close>: the first \<open>n\<close> code units of a string, the first \<open>n\<close>
  elements of an array; a TypeError on any other value, which has no such method.
\<close>

fun slice0 :: "world \<Rightarrow> jsval \<Rightarrow> nat \<Rightarrow> error + jsval" where
  "slice0 w (JStr s) n = Inr (JStr (take n s))"
| "slice0 w (JArr xs) n = Inr (JArr (take n xs))"
| "slice0 w _ n = Inl (TypeError (TypeErrorMessage w ''slice''))"

text \<open>\<^verbatim>\<open>v.map(f)\<close>: on an array; a TypeError on any other value.\<close>

fun array_map :: "world \<Rightarrow> (jsval \<Rightarrow> error + jsval) \<Rightarrow> jsval \<Rightarrow> error + jsval" where
  "array_map w f (JArr xs) = then_do (map_try f xs) (\<lambda>ys. Inr (JArr ys))"
| "array_map w f _ = Inl (TypeError (TypeErrorMessage w ''map''))"

text \<open>\<^verbatim>\<open>v.length\<close> of a value that has the method \<^verbatim>\<open>map\<close>: of an array.\<close>

fun array_length :: "world \<Rightarrow> jsval \<Rightarrow> error + jsval" where
  "array_length w (JArr xs) = Inr (JNum (Fin (of_nat (length xs))))"
| "array_length w (JStr s) = Inr (JNum (Fin (of_nat (length s))))"
| "array_length w v = get_member w v ''length''"

text \<open>
  \<^verbatim>\<open>...v\<close> in an object literal: the own enumerable properties of \<open>v\<close>, the indices
  for a string or an array, none for another primitive.
\<close>

fun spread :: "jsval \<Rightarrow> (string \<times> jsval) list" where
  "spread (JObj kvs) = kvs"
| "spread (JArr xs) = map (\<lambda>i. (digits i, xs ! i)) [0..<length xs]"
| "spread (JStr s) = map (\<lambda>i. (digits i, JStr [s ! i])) [0..<length s]"
| "spread _ = []"

subsection \<open>\<^verbatim>\<open>encodeURIComponent\<close>\<close>

text \<open>
  The unreserved characters stay; any other code unit is written in UTF-8 (one byte
  below 128, two bytes from 128 to 255), each byte as \<^verbatim>\<open>%\<close> and two upper-case
  hexadecimal digits.
\<close>

definition unreserved :: "char \<Rightarrow> bool" where
  "unreserved c =
     (c \<in> set (''ABCDEFGHIJKLMNOPQRSTUVWXYZabcdefghijklmnopqrstuvwxyz0123456789-_.!~*()''
               @ [CHR 0x27]))"

definition utf8 :: "char \<Rightarrow> nat list" where
  "utf8 c =
     (let n = (of_char c :: nat)
      in if n < 128 then [n] else [192 + n div 64, 128 + n mod 64])"

definition percent :: "nat \<Rightarrow> string" where
  "percent b = [CHR ''%'', digit_char (b div 16), digit_char (b mod 16)]"

definition encode_unit :: "char \<Rightarrow> string" where
  "encode_unit c = (if unreserved c then [c] else concat (map percent (utf8 c)))"

definition encodeURIComponent :: "string \<Rightarrow> string" where
  "encodeURIComponent s = concat (map encode_unit s)"

subsection \<open>Dates\<close>

text \<open>
  A Date object is its time value: \<open>Some t\<close>, milliseconds since the epoch, or
  \<open>None\<close> for an invalid date. The components of a time value follow the
  definitions of the language standard (Day, DayFromYear, YearFromTime, MonthFromTime,
  DateFromTime), in UTC.
\<close>

definition msPerDay :: int where
  "msPerDay = 86400000"

definition Day :: "int \<Rightarrow> int" where
  "Day t = t div msPerDay"

definition DayFromYear :: "int \<Rightarrow> int" where
  "DayFromYear y =
     365 * (y - 1970) + (y - 1969) div 4 - (y - 1901) div 100 + (y - 1601) div 400"

definition DaysInYear :: "int \<Rightarrow> int" where
  "DaysInYear y =
     (if y mod 4 \<noteq> 0 then 365 else if y mod 100 \<noteq> 0 then 366
      else if y mod 400 \<noteq> 0 then 365 else 366)"

text \<open>
  The standard defines the year of a day as the largest \<open>y\<close> with
  \<open>DayFromYear y \<le> d\<close>. It is found by going down from a year that is not too
  small: no year has fewer than 365 days or more than 366.
\<close>

function year_down :: "int \<Rightarrow> int \<Rightarrow> int" where
  "year_down d y = (if DayFromYear y \<le> d then y else year_down d (y - 1))"
  by pat_completeness auto

lemma div_step:
  fixes a n :: int
  assumes "0 < n"
  shows "(a + 1) div n = a div n + (if (a + 1) mod n = 0 then 1 else 0)"
proof -
  define q r where "q = a div n" and "r = a mod n"
  have a: "a = n * q + r"
    unfolding q_def r_def by simp
  have r: "0 \<le> r" "r < n"
    unfolding r_def using assms by simp_all
  show ?thesis
  proof (cases "r = n - 1")
    case True
    then have e: "a + 1 = n * (q + 1) + 0"
      using a by (simp add: algebra_simps)
    have z: "(0::int) \<le> 0" "0 < n"
      using assms by simp_all
    have "(a + 1) div n = q + 1"
      using int_div_pos_eq[OF e z] .
    moreover have "(a + 1) mod n = 0"
      using int_mod_pos_eq[OF e z] .
    ultimately show ?thesis
      by (simp add: q_def)
  next
    case False
    have e: "a + 1 = n * q + (r + 1)"
      using a by simp
    have b: "0 \<le> r + 1" "r + 1 < n"
      using r False by linarith+
    have "(a + 1) div n = q"
      using int_div_pos_eq[OF e b] .
    moreover have "(a + 1) mod n = r + 1"
      using int_mod_pos_eq[OF e b] .
    ultimately show ?thesis
      using r by (simp add: q_def)
  qed
qed

lemma mod_shift:
  fixes y k n :: int
  assumes "k mod n = 0"
  shows "((y - k) mod n = 0) = (y mod n = 0)"
  using assms
  by (metis mod_0_imp_dvd dvd_diff_commute dvd_diff mod_eq_0_iff_dvd diff_diff_eq2
      add_diff_cancel_left')

text \<open>The days of a year are the difference of the first days of two years.\<close>

lemma DayFromYear_Suc: "DayFromYear (y + 1) = DayFromYear y + DaysInYear y"
proof -
  have a: "(y + 1 - 1969) div 4 = (y - 1969) div 4 + (if y mod 4 = 0 then 1 else 0)"
    using div_step[of 4 "y - 1969"] mod_shift[of 1968 4 y] by (simp add: algebra_simps)
  have b: "(y + 1 - 1901) div 100 = (y - 1901) div 100 + (if y mod 100 = 0 then 1 else 0)"
    using div_step[of 100 "y - 1901"] mod_shift[of 1900 100 y] by (simp add: algebra_simps)
  have c: "(y + 1 - 1601) div 400 = (y - 1601) div 400 + (if y mod 400 = 0 then 1 else 0)"
    using div_step[of 400 "y - 1601"] mod_shift[of 1600 400 y] by (simp add: algebra_simps)
  have m1: "y mod 4 = 0" if "y mod 100 = 0"
  proof -
    have "y mod 100 mod 4 = y mod 4"
      by (rule mod_mod_cancel) simp
    with that show ?thesis by simp
  qed
  have m2: "y mod 100 = 0" if "y mod 400 = 0"
  proof -
    have "y mod 400 mod 100 = y mod 100"
      by (rule mod_mod_cancel) simp
    with that show ?thesis by simp
  qed
  show ?thesis
  proof (cases "y mod 4 = 0")
    case False
    with m1 m2 show ?thesis
      unfolding DayFromYear_def DaysInYear_def a b c by auto
  next
    case y4: True
    show ?thesis
    proof (cases "y mod 100 = 0")
      case False
      with m2 y4 show ?thesis
        unfolding DayFromYear_def DaysInYear_def a b c by auto
    next
      case True
      with y4 show ?thesis
        unfolding DayFromYear_def DaysInYear_def a b c by simp
    qed
  qed
qed

lemma DaysInYear_bounds: "365 \<le> DaysInYear y" "DaysInYear y \<le> 366"
  by (simp_all add: DaysInYear_def)

lemma DayFromYear_pred: "DayFromYear (y - 1) < DayFromYear y"
  using DayFromYear_Suc[of "y - 1"] DaysInYear_bounds(1)[of "y - 1"] by simp

termination year_down
proof (relation "measure (\<lambda>(d, y). nat (DayFromYear y - d))")
  show "wf (measure (\<lambda>(d, y). nat (DayFromYear y - d)))"
    by simp
next
  fix d y :: int
  assume "\<not> DayFromYear y \<le> d"
  then show "((d, y - 1), (d, y)) \<in> measure (\<lambda>(d, y). nat (DayFromYear y - d))"
    using DayFromYear_pred[of y] by simp
qed

declare year_down.simps [simp del]

definition YearFromDay :: "int \<Rightarrow> int" where
  "YearFromDay d = year_down d (1970 + (if 0 \<le> d then d div 365 else d div 366))"

definition YearFromTime :: "int \<Rightarrow> int" where
  "YearFromTime t = YearFromDay (Day t)"

definition DayWithinYear :: "int \<Rightarrow> int" where
  "DayWithinYear t = Day t - DayFromYear (YearFromTime t)"

definition InLeapYear :: "int \<Rightarrow> int" where
  "InLeapYear t = (if DaysInYear (YearFromTime t) = 366 then 1 else 0)"

definition MonthFromTime :: "int \<Rightarrow> int" where
  "MonthFromTime t =
     (let d = DayWithinYear t; l = InLeapYear t
      in if d < 31 then 0
         else if d < 59 + l then 1
         else if d < 90 + l then 2
         else if d < 120 + l then 3
         else if d < 151 + l then 4
         else if d < 181 + l then 5
         else if d < 212 + l then 6
         else if d < 243 + l then 7
         else if d < 273 + l then 8
         else if d < 304 + l then 9
         else if d < 334 + l then 10
         else 11)"

definition DateFromTime :: "int \<Rightarrow> int" where
  "DateFromTime t =
     (let d = DayWithinYear t; l = InLeapYear t; m = MonthFromTime t
      in if m = 0 then d + 1
         else if m = 1 then d - 30
         else if m = 2 then d - 58 - l
         else if m = 3 then d - 89 - l
         else if m = 4 then d - 119 - l
         else if m = 5 then d - 150 - l
         else if m = 6 then d - 180 - l
         else if m = 7 then d - 211 - l
         else if m = 8 then d - 242 - l
         else if m = 9 then d - 272 - l
         else if m = 10 then d - 303 - l
         else d - 333 - l)"

text \<open>A number in decimal, padded with zeros on the left to \<open>k\<close> characters.\<close>

definition pad :: "nat \<Rightarrow> int \<Rightarrow> string" where
  "pad k n = replicate (k - length (digits (nat n))) (CHR ''0'') @ digits (nat n)"

definition iso_year :: "int \<Rightarrow> string" where
  "iso_year y =
     (if 0 \<le> y \<and> y \<le> 9999 then pad 4 y
      else (if y < 0 then ''-'' else ''+'') @ pad 6 \<bar>y\<bar>)"

definition iso_date :: "int \<Rightarrow> string" where
  "iso_date t =
     iso_year (YearFromTime t) @ ''-'' @ pad 2 (MonthFromTime t + 1) @ ''-''
       @ pad 2 (DateFromTime t)"

definition iso_time :: "int \<Rightarrow> string" where
  "iso_time t =
     pad 2 (t div 3600000 mod 24) @ '':'' @ pad 2 (t div 60000 mod 60) @ '':''
       @ pad 2 (t div 1000 mod 60) @ ''.'' @ pad 3 (t mod 1000) @ ''Z''"

text \<open>\<^verbatim>\<open>toISOString()\<close>: a RangeError on an invalid date.\<close>

definition toISOString :: "int option \<Rightarrow> error + string" where
  "toISOString d =
     (case d of
        None \<Rightarrow> Inl (RangeError ''Invalid time value'')
      | Some t \<Rightarrow> Inr (iso_date t @ ''T'' @ iso_time t))"

text \<open>TimeClip: the time value of \<^verbatim>\<open>new Date(n)\<close> for a number \<open>n\<close>.\<close>

fun TimeClip :: "jsnum \<Rightarrow> int option" where
  "TimeClip (Fin q) =
     (if \<bar>q\<bar> \<le> 8640000000000000 then Some (if 0 \<le> q then \<lfloor>q\<rfloor> else \<lceil>q\<rceil>) else None)"
| "TimeClip _ = None"

text \<open>\<^verbatim>\<open>new Date(v)\<close>: a string is parsed, any other value is converted to a number.\<close>

definition new_Date :: "world \<Rightarrow> jsval \<Rightarrow> error + int option" where
  "new_Date w v =
     then_do (ToPrimitive w v) (\<lambda>p.
       Inr (TimeClip (case p of JStr s \<Rightarrow> Date_parse w s | _ \<Rightarrow> prim_to_number w p)))"

text \<open>\<^verbatim>\<open>d.getTime()\<close>, and the number a Date converts to in a comparison.\<close>

fun getTime :: "int option \<Rightarrow> jsnum" where
  "getTime None = NaN"
| "getTime (Some t) = Fin (of_int t)"

text \<open>\<^verbatim>\<open>s.split('T')[0]\<close>: the part of \<open>s\<close> before its first \<^verbatim>\<open>T\<close>.\<close>

definition split_T_first :: "string \<Rightarrow> string" where
  "split_T_first s = takeWhile (\<lambda>c. c \<noteq> CHR ''T'') s"

section \<open>The program\<close>

subsection \<open>\<^verbatim>\<open>fetchGitHub\<close>\<close>

definition GITHUB_API :: string where
  "GITHUB_API = ''https://api.github.com''"

definition request_headers :: "world \<Rightarrow> (string \<times> string) list" where
  "request_headers w =
     [(''Accept'', ''application/vnd.github.v3+json''),
      (''User-Agent'', ''github-dev-intel/1.0 (AI Agent)'')]
     @ (case GITHUB_TOKEN w of
          None \<Rightarrow> []
        | Some token \<Rightarrow>
            if token \<noteq> [] then [(''Authorization'', ''Bearer '' @ token)] else [])"

definition fetchGitHub :: "world \<Rightarrow> string \<Rightarrow> error + jsval" where
  "fetchGitHub w path =
     then_do (fetch w (GITHUB_API @ path) (request_headers w)) (\<lambda>response.
       if \<not> ok response
       then then_do (body_text response) (\<lambda>txt.
              Inl (Error (''GitHub API error: '' @ digits (status response) @ '' - ''
                            @ take 200 txt)))
       else body_json response)"

subsection \<open>\<^verbatim>\<open>formatRepo\<close>\<close>

text \<open>
  The first property read, \<^verbatim>\<open>repo.full_name\<close>, throws on null and undefined; once
  it has not, no later read of \<^verbatim>\<open>repo\<close> throws.
\<close>

definition formatRepo :: "world \<Rightarrow> jsval \<Rightarrow> error + jsval" where
  "formatRepo w repo =
     then_do (get_member w repo ''full_name'') (\<lambda>full_name.
       Inr (JObj
         [(''fullName'', full_name),
          (''name'', get repo ''name''),
          (''owner'', opt_chain (get repo ''owner'') ''login''),
          (''description'', get repo ''description''),
          (''stars'', get repo ''stargazers_count''),
          (''forks'', get repo ''forks_count''),
          (''watchers'', get repo ''watchers_count''),
          (''openIssues'', get repo ''open_issues_count''),
          (''language'', get repo ''language''),
          (''topics'', js_or (get repo ''topics'') (JArr [])),
          (''license'', js_or (opt_chain (get repo ''license'') ''spdx_id'') JNull),
          (''createdAt'', get repo ''created_at''),
          (''updatedAt'', get repo ''updated_at''),
          (''pushedAt'', get repo ''pushed_at''),
          (''defaultBranch'', get repo ''default_branch''),
          (''homepage'', js_or (get repo ''homepage'') JNull),
          (''url'', get repo ''html_url''),
          (''isArchived'', get repo ''archived''),
          (''isFork'', get repo ''fork'')]))"

subsection \<open>The free entrypoint \<^verbatim>\<open>overview\<close>\<close>

text \<open>The \<^verbatim>\<open>price: { amount: ... }\<close> the entrypoint is registered with.\<close>

definition overview_price :: nat where
  "overview_price = 0"

definition overview_path :: string where
  "overview_path =
     ''/search/repositories?q=created:>2026-01-24+stars:>100&sort=stars&order=desc&per_page=5''"

text \<open>The callback of \<^verbatim>\<open>map\<close> in \<^verbatim>\<open>overview\<close>; \<^verbatim>\<open>r.description?.slice(0, 100)\<close> is
  undefined when the description is null or undefined.\<close>

definition overview_sample :: "world \<Rightarrow> jsval \<Rightarrow> error + jsval" where
  "overview_sample w r =
     then_do (get_member w r ''full_name'') (\<lambda>full_name.
     then_do (if nullish (get r ''description'') then Inr JUndefined
              else slice0 w (get r ''description'') 100) (\<lambda>description.
       Inr (JObj
         [(''name'', full_name),
          (''stars'', get r ''stargazers_count''),
          (''language'', get r ''language''),
          (''description'', description)])))"

definition endpoints :: jsval where
  "endpoints =
     JObj
       [(''trending'', JObj [(''price'', JStr ''$0.001''),
          (''description'', JStr ''Discover trending repos by timeframe/language'')]),
        (''repo-stats'', JObj [(''price'', JStr ''$0.002''),
          (''description'', JStr ''Detailed stats for a specific repository'')]),
        (''releases'', JObj [(''price'', JStr ''$0.002''),
          (''description'', JStr ''Recent releases for a repository'')]),
        (''search'', JObj [(''price'', JStr ''$0.002''),
          (''description'', JStr ''Search repositories with filters'')]),
        (''compare'', JObj [(''price'', JStr ''$0.005''),
          (''description'', JStr ''Compare multiple repositories side-by-side'')])]"

definition overview :: "world \<Rightarrow> error + jsval" where
  "overview w =
     then_do (fetchGitHub w overview_path) (\<lambda>data.
     then_do (get_member w data ''items'') (\<lambda>items.
     then_do (slice0 w items 3) (\<lambda>top.
     then_do (array_map w (overview_sample w) top) (\<lambda>sampleTrending.
     then_do (toISOString (Some (Date_now w 0))) (\<lambda>fetchedAt.
       Inr (JObj
         [(''agent'', JStr ''github-dev-intel''),
          (''version'', JStr ''1.0.0''),
          (''description'', JStr ''GitHub intelligence for AI agents''),
          (''dataSource'', JStr ''GitHub API (live)''),
          (''sampleTrending'', sampleTrending),
          (''endpoints'', endpoints),
          (''fetchedAt'', JStr fetchedAt)]))))))"

subsection \<open>\<^verbatim>\<open>trending\<close>\<close>


definition daysAgo :: "string \<Rightarrow> int" where
  "daysAgo timeframe =
     (if timeframe = ''month'' then 30 else if timeframe = ''day'' then 1 else 7)"

text \<open>\<^verbatim>\<open>since.toISOString().split('T')[0]\<close>, for
  \<^verbatim>\<open>since = new Date(now.getTime() - daysAgo * 24 * 60 * 60 * 1000)\<close>.\<close>

definition sinceStr :: "world \<Rightarrow> string \<Rightarrow> error + string" where
  "sinceStr w timeframe =
     then_do
       (toISOString
          (TimeClip (Fin (of_int (Date_now w 0 - daysAgo timeframe * 24 * 60 * 60 * 1000)))))
       (\<lambda>iso. Inr (split_T_first iso))"

text \<open>\<^verbatim>\<open>if (language)\<close>, \<^verbatim>\<open>language || 'all'\<close>: an optional string is truthy when it
  is there and not empty.\<close>

fun given :: "string option \<Rightarrow> bool" where
  "given None = False"
| "given (Some s) = (s \<noteq> [])"

text \<open>The \<^verbatim>\<open>query\<close> the handler builds; the language is \<open>None\<close> when the request
  has none.\<close>

definition trending_query :: "world \<Rightarrow> string \<Rightarrow> string option \<Rightarrow> error + string" where
  "trending_query w timeframe lang =
     then_do (sinceStr w timeframe) (\<lambda>since.
       Inr (''created:>'' @ since @ ''+stars:>10''
            @ (if given lang then ''+language:'' @ encodeURIComponent (the lang) else [])))"

text \<open>The part of an object literal that reports a search: \<^verbatim>\<open>count\<close>,
  \<^verbatim>\<open>totalMatches\<close> and \<^verbatim>\<open>repos\<close>, in the order of evaluation.\<close>

definition search_results :: "world \<Rightarrow> jsval \<Rightarrow> error + (string \<times> jsval) list" where
  "search_results w data =
     then_do (get_member w data ''items'') (\<lambda>items.
     then_do (array_length w items) (\<lambda>count.
     then_do (array_map w (formatRepo w) items) (\<lambda>repos.
       Inr [(''count'', count),
            (''totalMatches'', get data ''total_count''),
            (''repos'', repos)])))"

definition trending :: "world \<Rightarrow> string \<Rightarrow> string option \<Rightarrow> jsnum \<Rightarrow> error + jsval" where
  "trending w timeframe lang limit =
     then_do (trending_query w timeframe lang) (\<lambda>query.
     then_do (fetchGitHub w (''/search/repositories?q='' @ query
                @ ''&sort=stars&order=desc&per_page='' @ number_to_string w limit)) (\<lambda>data.
     then_do (search_results w data) (\<lambda>results.
     then_do (toISOString (Some (Date_now w 1))) (\<lambda>fetchedAt.
       Inr (JObj
         ([(''timeframe'', JStr timeframe),
           (''language'', JStr (if given lang then the lang else ''all''))]
          @ results @ [(''fetchedAt'', JStr fetchedAt)]))))))"

subsection \<open>\<^verbatim>\<open>repo-stats\<close>\<close>

text \<open>\<^verbatim>\<open>p.catch(() => v)\<close>: the value \<open>v\<close> when \<open>p\<close> rejects.\<close>

fun catch :: "error + jsval \<Rightarrow> jsval \<Rightarrow> jsval" where
  "catch (Inl e) v = v"
| "catch (Inr x) v = x"

definition contributor :: "world \<Rightarrow> jsval \<Rightarrow> error + jsval" where
  "contributor w c =
     then_do (get_member w c ''login'') (\<lambda>login.
       Inr (JObj
         [(''login'', login),
          (''contributions'', get c ''contributions''),
          (''profileUrl'', get c ''html_url'')]))"

text \<open>The object the handler returns, from what the three calls settled to.\<close>

definition repo_stats_output :: "world \<Rightarrow> jsval \<Rightarrow> jsval \<Rightarrow> jsval \<Rightarrow> error + jsval" where
  "repo_stats_output w repoData contributors languages =
     then_do (formatRepo w repoData) (\<lambda>formatted.
     then_do (slice0 w contributors 5) (\<lambda>top.
     then_do (array_map w (contributor w) top) (\<lambda>topContributors.
     then_do (toISOString (Some (Date_now w 0))) (\<lambda>fetchedAt.
       Inr (JObj
         (spread formatted
          @ [(''size'', get repoData ''size''),
             (''hasWiki'', get repoData ''has_wiki''),
             (''hasPages'', get repoData ''has_pages''),
             (''hasDownloads'', get repoData ''has_downloads''),
             (''subscribersCount'', get repoData ''subscribers_count''),
             (''networkCount'', get repoData ''network_count''),
             (''languages'', languages),
             (''topContributors'', topContributors),
             (''fetchedAt'', JStr fetchedAt)]))))))"

text \<open>
  \<^verbatim>\<open>Promise.all\<close> of the three calls rejects when one of them rejects, and only the
  first can: the other two are caught.
\<close>

definition repo_stats :: "world \<Rightarrow> string \<Rightarrow> error + jsval" where
  "repo_stats w repo =
     then_do (fetchGitHub w (''/repos/'' @ repo)) (\<lambda>repoData.
       repo_stats_output w repoData
         (catch (fetchGitHub w (''/repos/'' @ repo @ ''/contributors?per_page=10'')) (JArr []))
         (catch (fetchGitHub w (''/repos/'' @ repo @ ''/languages'')) (JObj [])))"

subsection \<open>\<^verbatim>\<open>search\<close>\<close>

text \<open>The string \<^verbatim>\<open>q\<close> the handler composes; \<^verbatim>\<open>if (minStars)\<close> tests the truthiness
  of an optional number.\<close>

definition search_q :: "world \<Rightarrow> string \<Rightarrow> string option \<Rightarrow> jsnum option \<Rightarrow> string" where
  "search_q w query lang minStars =
     query
     @ (if given lang then ''+language:'' @ encodeURIComponent (the lang) else [])
     @ (case minStars of
          None \<Rightarrow> []
        | Some n \<Rightarrow> if truthy (JNum n) then ''+stars:>='' @ number_to_string w n else [])"

text \<open>The path of the upstream call: \<^verbatim>\<open>q\<close> is encoded as a whole.\<close>

definition search_path ::
  "world \<Rightarrow> string \<Rightarrow> string option \<Rightarrow> jsnum option \<Rightarrow> string \<Rightarrow> jsnum \<Rightarrow> string" where
  "search_path w query lang minStars sortBy limit =
     ''/search/repositories?q='' @ encodeURIComponent (search_q w query lang minStars)
     @ ''&sort='' @ sortBy @ ''&order=desc&per_page='' @ number_to_string w limit"

fun optional :: "('a \<Rightarrow> jsval) \<Rightarrow> 'a option \<Rightarrow> jsval" where
  "optional f None = JUndefined"
| "optional f (Some x) = f x"

definition search ::
  "world \<Rightarrow> string \<Rightarrow> string option \<Rightarrow> jsnum option \<Rightarrow> string \<Rightarrow> jsnum \<Rightarrow> error + jsval" where
  "search w query lang minStars sortBy limit =
     then_do (fetchGitHub w (search_path w query lang minStars sortBy limit)) (\<lambda>data.
     then_do (search_results w data) (\<lambda>results.
     then_do (toISOString (Some (Date_now w 0))) (\<lambda>fetchedAt.
       Inr (JObj
         ([(''query'', JStr query),
           (''filters'', JObj [(''language'', optional JStr lang),
                               (''minStars'', optional JNum minStars),
                               (''sort'', JStr sortBy)])]
          @ results @ [(''fetchedAt'', JStr fetchedAt)])))))"

subsection \<open>\<^verbatim>\<open>compare\<close>\<close>

text \<open>
  The callback of \<^verbatim>\<open>repos.map\<close>: the \<^verbatim>\<open>try\<close> block fetches the repository and its
  languages and formats the repository; whatever it throws is caught and becomes an
  entry with the status \<^verbatim>\<open>error\<close>.
\<close>

definition compare_item :: "world \<Rightarrow> string \<Rightarrow> jsval" where
  "compare_item w repo =
     (case then_do (fetchGitHub w (''/repos/'' @ repo)) (\<lambda>data.
             then_do (formatRepo w data) (\<lambda>formatted.
               Inr (JObj
                 (spread formatted
                  @ [(''languages'',
                        catch (fetchGitHub w (''/repos/'' @ repo @ ''/languages'')) (JObj [])),
                     (''status'', JStr ''success'')]))))
      of
        Inr entry \<Rightarrow> entry
      | Inl e \<Rightarrow>
          JObj [(''fullName'', JStr repo),
                (''status'', JStr ''error''),
                (''error'', JStr (message e))])"

text \<open>\<^verbatim>\<open>xs.reduce(f, init)\<close>: from the left, over every element of \<open>xs\<close>.\<close>

fun reduce :: "('a \<Rightarrow> jsval \<Rightarrow> error + 'a) \<Rightarrow> 'a \<Rightarrow> jsval list \<Rightarrow> error + 'a" where
  "reduce f acc [] = Inr acc"
| "reduce f acc (x # xs) = then_do (f acc x) (\<lambda>acc'. reduce f acc' xs)"

text \<open>\<^verbatim>\<open>xs[0]\<close>: undefined for the empty array.\<close>

fun first :: "jsval list \<Rightarrow> jsval" where
  "first [] = JUndefined"
| "first (x # xs) = x"

text \<open>The three callbacks that keep one of two entries, and the one that adds.\<close>

definition more_stars :: "world \<Rightarrow> jsval \<Rightarrow> jsval \<Rightarrow> error + jsval" where
  "more_stars w a b =
     then_do (get_member w a ''stars'') (\<lambda>x.
     then_do (get_member w b ''stars'') (\<lambda>y.
     then_do (js_gt w x y) (\<lambda>greater. Inr (if greater then a else b))))"

definition more_forks :: "world \<Rightarrow> jsval \<Rightarrow> jsval \<Rightarrow> error + jsval" where
  "more_forks w a b =
     then_do (get_member w a ''forks'') (\<lambda>x.
     then_do (get_member w b ''forks'') (\<lambda>y.
     then_do (js_gt w x y) (\<lambda>greater. Inr (if greater then a else b))))"

definition more_recent :: "world \<Rightarrow> jsval \<Rightarrow> jsval \<Rightarrow> error + jsval" where
  "more_recent w a b =
     then_do (get_member w a ''pushedAt'') (\<lambda>x.
     then_do (new_Date w x) (\<lambda>da.
     then_do (get_member w b ''pushedAt'') (\<lambda>y.
     then_do (new_Date w y) (\<lambda>db.
       Inr (if num_less (getTime db) (getTime da) then a else b)))))"

definition add_stars :: "world \<Rightarrow> jsval \<Rightarrow> jsval \<Rightarrow> error + jsval" where
  "add_stars w acc r = then_do (get_member w r ''stars'') (\<lambda>x. js_add w acc x)"

definition comparison :: "world \<Rightarrow> jsval list \<Rightarrow> error + jsval" where
  "comparison w successful =
     then_do (reduce (more_stars w) (first successful) successful) (\<lambda>s.
     then_do (reduce (more_forks w) (first successful) successful) (\<lambda>f.
     then_do (reduce (more_recent w) (first successful) successful) (\<lambda>r.
     then_do (reduce (add_stars w) (JNum (Fin 0)) successful) (\<lambda>star_sum.
     then_do (js_div w star_sum (JNum (Fin (of_nat (length successful))))) (\<lambda>mean.
       Inr (JObj
         [(''mostStars'', opt_chain s ''fullName''),
          (''mostForks'', opt_chain f ''fullName''),
          (''mostRecent'', opt_chain r ''fullName''),
          (''avgStars'', JNum (Math_round mean))]))))))"

text \<open>\<^verbatim>\<open>r.status === 'success'\<close>, on an entry.\<close>

definition succeeded :: "jsval \<Rightarrow> bool" where
  "succeeded r = (get r ''status'' = JStr ''success'')"

definition compare :: "world \<Rightarrow> string list \<Rightarrow> error + jsval" where
  "compare w repos =
     (let repoDataArray = map (compare_item w) repos;
          successful = filter succeeded repoDataArray
      in then_do (comparison w successful) (\<lambda>comparison.
         then_do (toISOString (Some (Date_now w 0))) (\<lambda>fetchedAt.
           Inr (JObj
             [(''requestedRepos'', JArr (map JStr repos)),
              (''count'', JNum (Fin (of_nat (length repoDataArray)))),
              (''repos'', JArr repoDataArray),
              (''comparison'', comparison),
              (''fetchedAt'', JStr fetchedAt)]))))"


section \<open>The JSON a client reads\<close>

text \<open>
  The handlers return JavaScript objects; the framework around them, which is not part
  of this source, sends them as JSON. \<open>as_json v\<close> is what
  \<^verbatim>\<open>JSON.parse(JSON.stringify(v))\<close> gives by the language standard: a property whose
  value is undefined is left out, an undefined element of an array becomes null, and so
  does a number that is NaN or infinite.
\<close>

fun as_json :: "jsval \<Rightarrow> jsval"
  and json_items :: "jsval list \<Rightarrow> jsval list"
  and json_fields :: "(string \<times> jsval) list \<Rightarrow> (string \<times> jsval) list" where
  "as_json (JNum n) = (case n of Fin q \<Rightarrow> JNum (Fin q) | _ \<Rightarrow> JNull)"
| "as_json (JArr xs) = JArr (json_items xs)"
| "as_json (JObj kvs) = JObj (json_fields kvs)"
| "as_json v = v"
| "json_items [] = []"
| "json_items (x # xs) = (if x = JUndefined then JNull else as_json x) # json_items xs"
| "json_fields [] = []"
| "json_fields (kv # kvs) =
     (if snd kv = JUndefined then json_fields kvs
      else (fst kv, as_json (snd kv)) # json_fields kvs)"

section \<open>Worlds for the examples\<close>

text \<open>
  A world whose upstream answers the paths of a table with status 200 and the JSON of
  the table, and any other path with status 404; its clock stands at \<open>now\<close> and its
  \<^verbatim>\<open>Date.parse\<close> knows the strings of \<open>dates\<close>.
\<close>

definition example_world :: "(string \<times> jsval) list \<Rightarrow> (string \<times> int) list \<Rightarrow> int \<Rightarrow> world" where
  "example_world upstream dates now =
     \<lparr>fetch = (\<lambda>url headers.
        case map_of (map (\<lambda>(path, v). (GITHUB_API @ path, v)) upstream) url of
          Some v \<Rightarrow> Inr \<lparr>ok = True, status = 200, body_text = Inr [], body_json = Inr v\<rparr>
        | None \<Rightarrow> Inr \<lparr>ok = False, status = 404, body_text = Inr ''Not Found'',
                      body_json = Inl (SyntaxError ''Unexpected token'')\<rparr>),
      GITHUB_TOKEN = None,
      Date_now = (\<lambda>k. now),
      Date_parse = (\<lambda>s. case map_of dates s of Some t \<Rightarrow> Fin (of_int t) | None \<Rightarrow> NaN),
      StringToNumber = (\<lambda>s. NaN),
      NumberToString = (\<lambda>q. ''?''),
      TypeErrorMessage = (\<lambda>k. ''Cannot read property '' @ k)\<rparr>"

text \<open>A repository record as the upstream sends it, with the fields the examples read.\<close>

definition raw_repo :: "string \<Rightarrow> rat \<Rightarrow> rat \<Rightarrow> string \<Rightarrow> jsval" where
  "raw_repo full_name stars forks pushed_at =
     JObj [(''full_name'', JStr full_name),
           (''stargazers_count'', JNum (Fin stars)),
           (''forks_count'', JNum (Fin forks)),
           (''pushed_at'', JStr pushed_at)]"

section \<open>Notions the properties are stated with\<close>

text \<open>A finite number, and its value.\<close>

definition finite_number :: "jsval \<Rightarrow> bool" where
  "finite_number v = (case v of JNum (Fin q) \<Rightarrow> True | _ \<Rightarrow> False)"

definition number_of :: "jsval \<Rightarrow> rat" where
  "number_of v = (case v of JNum (Fin q) \<Rightarrow> q | _ \<Rightarrow> 0)"

text \<open>A star count: a number that is a non-negative integer.\<close>

definition star_count :: "jsval \<Rightarrow> bool" where
  "star_count v = (case v of JNum (Fin q) \<Rightarrow> 0 \<le> q \<and> of_int \<lfloor>q\<rfloor> = q | _ \<Rightarrow> False)"

text \<open>The time value of \<^verbatim>\<open>new Date(r.pushedAt)\<close>, when that is a valid date.\<close>

definition pushed_time :: "world \<Rightarrow> jsval \<Rightarrow> int option" where
  "pushed_time w r = (case new_Date w (get r ''pushedAt'') of Inl e \<Rightarrow> None | Inr d \<Rightarrow> d)"

text \<open>
  \<open>last_greatest k xs i\<close>: the element at \<open>i\<close> has the greatest key of \<open>xs\<close>, and
  every later element has a smaller one: it is the last of those with the greatest key.
\<close>

definition last_greatest :: "('a \<Rightarrow> 'k::linorder) \<Rightarrow> 'a list \<Rightarrow> nat \<Rightarrow> bool" where
  "last_greatest k xs i =
     (i < length xs \<and> (\<forall>j<length xs. k (xs ! j) \<le> k (xs ! i))
      \<and> (\<forall>j<length xs. i < j \<longrightarrow> k (xs ! j) < k (xs ! i)))"

text \<open>The sum and the arithmetic mean of the star counts of a list of entries, as
  exact numbers.\<close>

definition total_stars :: "jsval list \<Rightarrow> rat" where
  "total_stars rs = sum_list (map (\<lambda>r. number_of (get r ''stars'')) rs)"

definition mean_stars :: "jsval list \<Rightarrow> rat" where
  "mean_stars rs = total_stars rs / of_nat (length rs)"

text \<open>The values whose conversion to a primitive does not throw.\<close>

fun convertible :: "jsval \<Rightarrow> bool" where
  "convertible (JObj kvs) = (''toString'' \<notin> fst ` set kvs)"
| "convertible (JArr xs) = (\<forall>x\<in>set xs. nullish x \<or> convertible x)"
| "convertible _ = True"

fun primitive :: "jsval \<Rightarrow> bool" where
  "primitive (JArr _) = False"
| "primitive (JObj _) = False"
| "primitive _ = True"

text \<open>An entry whose stars, forks and push date can be compared: the conversions that
  the comparison metrics apply to them do not throw.\<close>

definition comparable :: "jsval \<Rightarrow> bool" where
  "comparable r =
     (convertible (get r ''stars'') \<and> convertible (get r ''forks'')
      \<and> convertible (get r ''pushedAt''))"

text \<open>The keys of the object \<^verbatim>\<open>formatRepo\<close> returns, in their order.\<close>

definition formatRepo_keys :: "string list" where
  "formatRepo_keys =
     [''fullName'', ''name'', ''owner'', ''description'', ''stars'', ''forks'', ''watchers'',
      ''openIssues'', ''language'', ''topics'', ''license'', ''createdAt'', ''updatedAt'',
      ''pushedAt'', ''defaultBranch'', ''homepage'', ''url'', ''isArchived'', ''isFork'']"

text \<open>The values that have a method \<^verbatim>\<open>slice\<close>; an item of a search that
  \<^verbatim>\<open>overview\<close> can sample: it is not null, and its description is a string (or an
  array), null or missing.\<close>

fun has_slice :: "jsval \<Rightarrow> bool" where
  "has_slice (JStr _) = True"
| "has_slice (JArr _) = True"
| "has_slice _ = False"

definition sample_item :: "jsval \<Rightarrow> bool" where
  "sample_item r =
     (\<not> nullish r \<and> (nullish (get r ''description'') \<or> has_slice (get r ''description'')))"





text \<open>What a handler returned; undefined when it threw.\<close>

fun returned :: "error + jsval \<Rightarrow> jsval" where
  "returned (Inr v) = v"
| "returned (Inl e) = JUndefined"

text \<open>Two repositories with the same stars, forks and push date; three with 10, 30 and
  50 stars; an upstream that knows \<^verbatim>\<open>b/b\<close> only.\<close>

definition partial_world :: world where
  "partial_world =
     example_world [(''/repos/b/b'', raw_repo ''b/b'' 7 3 ''2026-01-02T00:00:00Z'')]
       [(''2026-01-02T00:00:00Z'', 1767312000000)] 1767225600000"


definition tie_world :: world where
  "tie_world =
     example_world
       [(''/repos/a/a'', raw_repo ''a/a'' 5 1 ''2026-01-02T00:00:00Z''),
        (''/repos/b/b'', raw_repo ''b/b'' 5 1 ''2026-01-02T00:00:00Z'')]
       [(''2026-01-02T00:00:00Z'', 1767312000000)] 1767225600000"

definition three_world :: world where
  "three_world =
     example_world
       [(''/repos/a/a'', raw_repo ''a/a'' 10 0 ''2026-01-02T00:00:00Z''),
        (''/repos/b/b'', raw_repo ''b/b'' 30 0 ''2026-01-02T00:00:00Z''),
        (''/repos/c/c'', raw_repo ''c/c'' 50 0 ''2026-01-02T00:00:00Z'')]
       [(''2026-01-02T00:00:00Z'', 1767312000000)] 1767225600000"


text \<open>An upstream whose search answers with the given items.\<close>

definition search_item :: "nat \<Rightarrow> jsval" where
  "search_item i =
     JObj [(''full_name'', JStr (''o/r'' @ digits i)),
           (''stargazers_count'', JNum (Fin (of_nat (1000 - i)))),
           (''language'', JNull),
           (''description'', JStr ''A repository'')]"

definition overview_world :: "jsval list \<Rightarrow> world" where
  "overview_world items =
     example_world
       [(overview_path,
         JObj [(''total_count'', JNum (Fin (of_nat (length items)))), (''items'', JArr items)])]
       [] 1767225600000"

section \<open>Properties of the rounding to a double\<close>

text \<open>
  \<open>exponent\<close> is the binary exponent of a positive number, and the nearest integer is at
  most one half away.
\<close>

lemma floor_rat_numeral:
  "\<lfloor>(numeral a :: rat) / numeral b\<rfloor> = numeral a div numeral b"
  using floor_divide_of_int_eq[of "numeral a" "numeral b", where ?'a = rat] by simp

lemma floor_log2_bounds:
  "0 < n \<Longrightarrow> 2 ^ floor_log2 n \<le> n \<and> n < 2 ^ Suc (floor_log2 n)"
proof (induction n rule: floor_log2.induct)
  case (1 n)
  show ?case
  proof (cases "n < 2")
    case True
    with 1(2) show ?thesis
      by (simp add: floor_log2.simps)
  next
    case False
    then have "0 < n div 2"
      by simp
    from 1(1)[OF False this] have "2 * 2 ^ floor_log2 (n div 2) \<le> 2 * (n div 2)"
      and "2 * (n div 2) + 2 \<le> 2 * 2 ^ Suc (floor_log2 (n div 2))"
      by simp_all
    moreover have "2 * (n div 2) \<le> n" "n < 2 * (n div 2) + 2"
      by simp_all
    ultimately have "2 * 2 ^ floor_log2 (n div 2) \<le> n"
      and "n < 2 * 2 ^ Suc (floor_log2 (n div 2))"
      by linarith+
    with False show ?thesis
      by (subst (1 2) floor_log2.simps) simp
  qed
qed

lemma exponent_lower:
  assumes "0 < q"
  shows "power_int 2 (exponent q) \<le> q"
proof (cases "1 \<le> q")
  case True
  then have "0 < \<lfloor>q\<rfloor>"
    by simp
  from floor_log2_bounds[OF this] have "(2::int) ^ floor_log2 \<lfloor>q\<rfloor> \<le> \<lfloor>q\<rfloor>"
    by simp
  then have "(of_int (2 ^ floor_log2 \<lfloor>q\<rfloor>) :: rat) \<le> of_int \<lfloor>q\<rfloor>"
    by (simp only: of_int_le_iff)
  also have "\<dots> \<le> q"
    by simp
  finally show ?thesis
    using True by (simp add: exponent_def)
next
  case False
  define N where "N = \<lceil>1 / q\<rceil>"
  define k where "k = floor_log2 (N - 1)"
  from False assms have "1 < 1 / q"
    by simp
  then have "1 < N"
    unfolding N_def by (simp add: less_ceiling_iff)
  then have "0 < N - 1"
    by simp
  from floor_log2_bounds[OF this] have "N \<le> 2 ^ Suc k"
    unfolding k_def by simp
  then have "(of_int N :: rat) \<le> of_int (2 ^ Suc k)"
    by (simp only: of_int_le_iff)
  moreover have "1 / q \<le> of_int N"
    unfolding N_def by simp
  ultimately have "1 / q \<le> 2 ^ Suc k"
    by simp
  with assms have "1 / 2 ^ Suc k \<le> q"
    by (simp add: field_simps)
  moreover have "exponent q = - int (Suc k)"
    using False by (simp add: exponent_def N_def k_def)
  moreover have "power_int (2::rat) (- int (Suc k)) = 1 / 2 ^ Suc k"
    by (simp only: power_int_minus_divide power_int_of_nat)
  ultimately show ?thesis
    by (simp only:)
qed

lemma exponent_upper:
  assumes "0 < q"
  shows "q < power_int 2 (exponent q + 1)"
proof (cases "1 \<le> q")
  case True
  then have "0 < \<lfloor>q\<rfloor>"
    by simp
  from floor_log2_bounds[OF this] have "\<lfloor>q\<rfloor> < 2 ^ Suc (floor_log2 \<lfloor>q\<rfloor>)"
    by simp
  then have "q < of_int (2 ^ Suc (floor_log2 \<lfloor>q\<rfloor>))"
    by (simp only: floor_less_iff)
  moreover have "exponent q + 1 = int (Suc (floor_log2 \<lfloor>q\<rfloor>))"
    using True by (simp add: exponent_def)
  ultimately show ?thesis
    by (simp only: power_int_of_nat of_int_power of_int_numeral)
next
  case False
  define N where "N = \<lceil>1 / q\<rceil>"
  define k where "k = floor_log2 (N - 1)"
  from False assms have "1 < 1 / q"
    by simp
  then have "1 < N"
    unfolding N_def by (simp add: less_ceiling_iff)
  then have "0 < N - 1"
    by simp
  from floor_log2_bounds[OF this] have "2 ^ k \<le> N - 1"
    unfolding k_def by simp
  then have "(of_int (2 ^ k) :: rat) \<le> of_int (N - 1)"
    by (simp only: of_int_le_iff)
  moreover have "of_int (N - 1) < 1 / q"
    unfolding N_def by (simp add: ceiling_correct)
  ultimately have "2 ^ k < 1 / q"
    by simp
  with assms have "q < 1 / 2 ^ k"
    by (simp add: field_simps)
  moreover have "exponent q + 1 = - int k"
    using False by (simp add: exponent_def N_def k_def)
  ultimately show ?thesis
    by (simp add: power_int_minus_divide)
qed

lemma round_half_even_near: "\<bar>of_int (round_half_even y) - y\<bar> \<le> 1 / 2"
proof -
  have "of_int \<lfloor>y\<rfloor> \<le> y" "y < of_int \<lfloor>y\<rfloor> + 1"
    by linarith+
  then show ?thesis
    by (auto simp: round_half_even_def Let_def)
qed

lemma round_half_even_of_int: "round_half_even (of_int k) = k"
  by (simp add: round_half_even_def)

lemma round_half_even_nonneg: "0 \<le> y \<Longrightarrow> 0 \<le> round_half_even y"
  by (auto simp: round_half_even_def Let_def)

lemma power_int_2_mono:
  "a \<le> b \<Longrightarrow> power_int (2::rat) a \<le> power_int 2 b"
  by (rule power_int_increasing) simp_all

lemma power_int_2_less_cancel:
  assumes "power_int (2::rat) a < power_int 2 b"
  shows "a < b"
proof (rule ccontr)
  assume "\<not> a < b"
  then have "b \<le> a"
    by simp
  from power_int_2_mono[OF this] assms show False
    by simp
qed

text \<open>The exponent a positive number is rounded at, and the unit in its last place.\<close>

lemma rounding_exponent:
  assumes "0 < q"
  defines "e \<equiv> max (exponent q) (- 1022)"
  shows "power_int 2 e \<le> max q (1 / 2 ^ 1022)" and "- 1022 \<le> e"
proof -
  show "- 1022 \<le> e"
    unfolding e_def by simp
  have m: "power_int (2::rat) (- 1022) = 1 / 2 ^ 1022"
    by (simp only: power_int_minus_divide power_int_numeral)
  show "power_int 2 e \<le> max q (1 / 2 ^ 1022)"
  proof (cases "exponent q \<le> - 1022")
    case True
    then have "e = - 1022"
      unfolding e_def by simp
    with m show ?thesis
      by (simp only: max.cobounded2)
  next
    case False
    then have "e = exponent q"
      unfolding e_def by simp
    with exponent_lower[OF assms(1)] show ?thesis
      by (simp only: le_max_iff_disj) simp
  qed
qed

lemma to_double_pos:
  assumes "0 < q"
  defines "e \<equiv> max (exponent q) (- 1022)"
  defines "r \<equiv> of_int (round_half_even (q / power_int 2 (e - 52))) * power_int 2 (e - 52)"
  shows "to_double q = (if 2 ^ 1024 \<le> r then PInf else Fin r)"
  using assms(1) unfolding r_def e_def
  by (simp add: to_double_def Let_def)

lemma divide_ge_one_le:
  fixes x c :: rat
  assumes "0 \<le> x" "1 \<le> c"
  shows "x / c \<le> x"
proof -
  have "x / c \<le> x / 1"
    using assms by (intro divide_left_mono) simp_all
  then show ?thesis
    by simp
qed

lemma to_double_error:
  assumes "0 < q" "q < 2 ^ 1023"
  shows "\<exists>r. to_double q = Fin r \<and> 0 \<le> r \<and> \<bar>r - q\<bar> \<le> max q (1 / 2 ^ 1022) / 2 ^ 53"
proof -
  define e where "e = max (exponent q) (- 1022)"
  define u :: rat where "u = power_int 2 (e - 52)"
  define m where "m = round_half_even (q / u)"
  define r where "r = of_int m * u"
  have u0: "0 < u"
    unfolding u_def by (simp add: zero_less_power_int)
  have u: "u = power_int 2 e / 2 ^ 52"
    unfolding u_def by (simp add: power_int_diff)
  have b: "power_int 2 e \<le> max q (1 / 2 ^ 1022)"
    unfolding e_def by (rule rounding_exponent(1)[OF assms(1)])
  have "\<bar>of_int m - q / u\<bar> \<le> 1 / 2"
    unfolding m_def by (rule round_half_even_near)
  then have "\<bar>of_int m - q / u\<bar> * u \<le> 1 / 2 * u"
    using u0 by (simp only: mult_le_cancel_right_pos)
  moreover have "\<bar>of_int m - q / u\<bar> * u = \<bar>r - q\<bar>"
  proof -
    have "\<bar>of_int m - q / u\<bar> * u = \<bar>(of_int m - q / u) * u\<bar>"
      using u0 by (simp add: abs_mult)
    also have "(of_int m - q / u) * u = r - q"
      using u0 by (simp add: r_def field_simps)
    finally show ?thesis .
  qed
  ultimately have e1: "\<bar>r - q\<bar> \<le> u / 2"
    by simp
  have "u / 2 = power_int 2 e / 2 ^ 53"
    unfolding u by simp
  also have "\<dots> \<le> max q (1 / 2 ^ 1022) / 2 ^ 53"
    using b by (simp add: divide_right_mono)
  finally have e2: "u / 2 \<le> max q (1 / 2 ^ 1022) / 2 ^ 53" .
  have "max q (1 / 2 ^ 1022) < 2 ^ 1023"
    using assms(2) by simp
  moreover have "max q (1 / 2 ^ 1022) / 2 ^ 53 \<le> max q (1 / 2 ^ 1022)"
    using assms(1) by (intro divide_ge_one_le) simp_all
  ultimately have "max q (1 / 2 ^ 1022) / 2 ^ 53 < 2 ^ 1023"
    by (rule le_less_trans[rotated])
  with e1 e2 assms(2) have "r < 2 ^ 1023 + 2 ^ 1023"
    by linarith
  then have lt: "r < 2 ^ 1024"
    by simp
  have "0 \<le> q / u"
    using assms(1) u0 by simp
  then have "0 \<le> m"
    unfolding m_def by (rule round_half_even_nonneg)
  then have r0: "0 \<le> r"
    unfolding r_def using u0 by simp
  have "to_double q = Fin r"
    using to_double_pos[OF assms(1)] lt
    unfolding r_def m_def u_def e_def by simp
  with r0 e1 e2 show ?thesis
    by auto
qed

text \<open>A non-negative half-integer below \<open>2^52\<close> is a double.\<close>

lemma to_double_half:
  assumes "2 * q = of_int k" "0 \<le> q" "q < 2 ^ 52"
  shows "to_double q = Fin q"
proof (cases "q = 0")
  case True
  then show ?thesis
    by (simp add: to_double_def)
next
  case False
  with assms(2) have q0: "0 < q"
    by simp
  define e where "e = max (exponent q) (- 1022)"
  define u :: rat where "u = power_int 2 (e - 52)"
  have u0: "0 < u"
    unfolding u_def by (simp add: zero_less_power_int)
  have "power_int 2 e \<le> max q (1 / 2 ^ 1022)"
    unfolding e_def by (rule rounding_exponent(1)[OF q0])
  also have "\<dots> < 2 ^ 52"
    using assms(3) by simp
  also have "(2::rat) ^ 52 = power_int 2 52"
    by simp
  finally have "e < 52"
    by (rule power_int_2_less_cancel)
  then obtain j :: nat where j: "52 - e = int (Suc j)"
    by (metis Suc_pred' add_diff_cancel_left' diff_add_cancel int_cases2 less_iff_diff_less_0
        neg_0_less_iff_less of_nat_0_less_iff uminus_add_conv_diff zless_iff_Suc_zadd)
  have "1 / u = power_int 2 (52 - e)"
    unfolding u_def by (simp add: power_int_minus_divide[symmetric])
  also have "\<dots> = 2 ^ Suc j"
    unfolding j by (simp only: power_int_of_nat)
  finally have iu: "1 / u = 2 ^ Suc j" .
  have "q / u = q * (1 / u)"
    by simp
  also have "\<dots> = 2 * q * 2 ^ j"
    unfolding iu by simp
  finally have "q / u = 2 * q * 2 ^ j" .
  then have "q / u = of_int (k * 2 ^ j)"
    unfolding assms(1) by simp
  then have "round_half_even (q / u) = k * 2 ^ j"
    by (simp only: round_half_even_of_int)
  then have "of_int (round_half_even (q / u)) * u = q"
    using \<open>q / u = of_int (k * 2 ^ j)\<close> u0 by (simp add: field_simps)
  moreover have "\<not> (2::rat) ^ 1024 \<le> q"
    using assms(3) by simp
  ultimately show ?thesis
    using to_double_pos[OF q0] unfolding u_def e_def by simp
qed

text \<open>So is a non-negative integer below \<open>2^53\<close>.\<close>

lemma to_double_int:
  assumes "0 \<le> n" "n < 2 ^ 53"
  shows "to_double (of_int n) = Fin (of_int n)"
proof (cases "n = 0")
  case True
  then show ?thesis
    by (simp add: to_double_def)
next
  case False
  define q :: rat where "q = of_int n"
  from False assms(1) have q0: "0 < q"
    unfolding q_def by simp
  have q53: "q < 2 ^ 53"
    unfolding q_def using assms(2) by (metis of_int_less_numeral_power_cancel_iff)
  define e where "e = max (exponent q) (- 1022)"
  define u :: rat where "u = power_int 2 (e - 52)"
  have u0: "0 < u"
    unfolding u_def by (simp add: zero_less_power_int)
  have "power_int 2 e \<le> max q (1 / 2 ^ 1022)"
    unfolding e_def by (rule rounding_exponent(1)[OF q0])
  also have "\<dots> < 2 ^ 53"
    using q53 by simp
  also have "(2::rat) ^ 53 = power_int 2 53"
    by simp
  finally have "e < 53"
    by (rule power_int_2_less_cancel)
  then have "0 \<le> 52 - e"
    by simp
  then obtain j :: nat where j: "52 - e = int j"
    by (metis nonneg_int_cases)
  have "1 / u = power_int 2 (52 - e)"
    unfolding u_def by (simp add: power_int_minus_divide[symmetric])
  also have "\<dots> = 2 ^ j"
    unfolding j by (simp only: power_int_of_nat)
  finally have iu: "1 / u = 2 ^ j" .
  have "q / u = q * (1 / u)"
    by simp
  also have "\<dots> = of_int (n * 2 ^ j)"
    unfolding iu q_def by simp
  finally have m: "q / u = of_int (n * 2 ^ j)" .
  then have "round_half_even (q / u) = n * 2 ^ j"
    by (simp only: round_half_even_of_int)
  then have "of_int (round_half_even (q / u)) * u = q"
    using m u0 by (simp add: field_simps)
  moreover have "\<not> (2::rat) ^ 1024 \<le> q"
    using q53 by simp
  ultimately have "to_double q = Fin q"
    using to_double_pos[OF q0] unfolding u_def e_def by simp
  then show ?thesis
    unfolding q_def .
qed

text \<open>
  The quotient of a sum of star counts below \<open>2^52\<close> by a count is rounded to a
  double so near the exact quotient that \<^verbatim>\<open>Math.round\<close> gives the same integer for both.
\<close>

lemma mean_round:
  assumes "0 \<le> S" "S < 2 ^ 52" "0 < n"
  shows "Math_round (to_double (of_int S / of_nat n)) =
           Fin (of_int \<lfloor>of_int S / of_nat n + 1 / 2 :: rat\<rfloor>)"
proof (cases "S = 0")
  case True
  then show ?thesis
    by (simp add: to_double_def)
next
  case False
  define N :: rat where "N = of_nat n"
  define s :: rat where "s = of_int S"
  define x where "x = s / N"
  define k where "k = \<lfloor>x + 1 / 2\<rfloor>"
  have N1: "1 \<le> N"
    unfolding N_def using assms(3) by simp
  then have N0: "0 < N"
    by simp
  have s1: "1 \<le> s"
    unfolding s_def using assms(1) False by simp
  have s52: "s < 2 ^ 52"
    unfolding s_def using assms(2) by (metis of_int_less_numeral_power_cancel_iff)
  have x0: "0 < x"
    unfolding x_def using N0 s1 by simp
  have xs: "x \<le> s"
    unfolding x_def using N1 s1 by (intro divide_ge_one_le) simp_all
  with s52 have x52: "x < 2 ^ 52"
    by simp
  then have "x < 2 ^ 1023"
    by (rule less_trans) simp
  from to_double_error[OF x0 this] obtain r
    where r: "to_double x = Fin r" and r0: "0 \<le> r"
      and err: "\<bar>r - x\<bar> \<le> max x (1 / 2 ^ 1022) / 2 ^ 53"
    by blast
  have k1: "of_int k \<le> x + 1 / 2" and k2: "x + 1 / 2 < of_int k + 1"
    unfolding k_def by linarith+
  have goal: "\<lfloor>r + 1 / 2\<rfloor> = k"
  proof (cases "x < 1 / 2 ^ 1022")
    case True
    then have "max x (1 / 2 ^ 1022) / 2 ^ 53 = 1 / 2 ^ 1022 / 2 ^ 53"
      by (simp add: max_def)
    also have "\<dots> \<le> (1 / 4 :: rat)"
      by simp
    finally have "\<bar>r - x\<bar> \<le> 1 / 4"
      using err by simp
    moreover have "x < 1 / 4"
      using True by (rule less_trans) simp
    ultimately have "r + 1 / 2 < 1" "x + 1 / 2 < 1"
      by linarith+
    with r0 x0 have "\<lfloor>r + 1 / 2\<rfloor> = 0" "\<lfloor>x + 1 / 2\<rfloor> = 0"
      by (simp_all add: floor_eq_iff)
    then show ?thesis
      unfolding k_def by simp
  next
    case False
    then have "max x (1 / 2 ^ 1022) / 2 ^ 53 = x / 2 ^ 53"
      by (simp add: max_def)
    with err have e1: "\<bar>r - x\<bar> \<le> x / 2 ^ 53"
      by simp
    have "x / 2 ^ 53 = s / 2 ^ 52 / (2 * N)"
      unfolding x_def by simp
    also have "\<dots> < 1 / (2 * N)"
      using s52 N0 by (intro divide_strict_right_mono) simp_all
    finally have e2: "\<bar>r - x\<bar> < 1 / (2 * N)"
      using e1 by simp
    define A where "A = 2 * S + int n - 2 * int n * k"
    have A: "x + 1 / 2 - of_int k = of_int A / (2 * N)"
      unfolding A_def x_def s_def N_def using assms(3) by (simp add: field_simps)
    from k1 have "0 \<le> of_int A / (2 * N)"
      unfolding A[symmetric] by simp
    then have A0: "0 \<le> A"
      using N0 by (simp add: zero_le_divide_iff)
    from k2 have "of_int A / (2 * N) < 1"
      unfolding A[symmetric] by simp
    then have "(of_int A :: rat) < 2 * N"
      using N0 by (simp add: divide_less_eq)
    then have "(of_int A :: rat) < of_int (2 * int n)"
      unfolding N_def by simp
    then have "A < 2 * int n"
      by (simp only: of_int_less_iff)
    then have "A + 1 \<le> 2 * int n"
      by simp
    then have "(of_int (A + 1) :: rat) \<le> of_int (2 * int n)"
      by (simp only: of_int_le_iff)
    then have A2: "of_int A + 1 \<le> 2 * N"
      unfolding N_def by simp
    show ?thesis
    proof (cases "A = 0")
      case True
      with A have h: "2 * x = of_int (2 * k - 1)"
        by simp
      from to_double_half[OF h] x0 x52 r have "r = x"
        by simp
      then show ?thesis
        unfolding k_def by simp
    next
      case False
      with A0 have "1 \<le> A"
        by simp
      then have "(1::rat) \<le> of_int A"
        by simp
      then have "1 / (2 * N) \<le> of_int A / (2 * N)"
        using N0 by (intro divide_right_mono) simp_all
      with A have lo: "1 / (2 * N) \<le> x + 1 / 2 - of_int k"
        by simp
      have "(of_int A + 1) / (2 * N) \<le> 1"
        using A2 N0 by (simp add: divide_le_eq)
      then have "of_int A / (2 * N) + 1 / (2 * N) \<le> 1"
        by (simp add: add_divide_distrib)
      with A have hi: "x + 1 / 2 - of_int k + 1 / (2 * N) \<le> 1"
        by simp
      from lo hi e2 have "of_int k \<le> r + 1 / 2" "r + 1 / 2 < of_int k + 1"
        by linarith+
      then show ?thesis
        by (simp add: floor_eq_iff)
    qed
  qed
  have "Math_round (to_double x) = Fin (of_int k)"
    unfolding r by (simp add: goal)
  then show ?thesis
    unfolding k_def x_def s_def N_def .
qed

lemma to_double_numeral:
  "(numeral k :: int) < 2 ^ 53 \<Longrightarrow> to_double (numeral k) = Fin (numeral k)"
  using to_double_int[of "numeral k"] by simp

text \<open>
  Beyond \<open>2^53\<close> a sum is rounded: \<open>2^53 + 1\<close> is \<open>2^53\<close>. And the mean of the star
  counts \<open>2^51 + 1\<close>, \<open>2^51\<close> and \<open>2^51\<close> is rounded to a double before
  \<^verbatim>\<open>Math.round\<close> sees it: the result is not the integer nearest to the exact mean.
\<close>

lemma floor_log2_53: "floor_log2 9007199254740993 = 53"
  by (simp add: floor_log2.simps)

lemma num_add_rounds:
  "num_add (Fin 9007199254740992) (Fin 1) = Fin 9007199254740992"
  by (simp add: to_double_def exponent_def floor_log2_53 round_half_even_def Let_def
      floor_rat_numeral)

lemma floor_log2_51: "floor_log2 2251799813685248 = 51"
  by (simp add: floor_log2.simps)

lemma star_sum_example:
  "num_add (num_add (Fin 2251799813685249) (Fin 2251799813685248)) (Fin 2251799813685248)
     = Fin 6755399441055745"
  by (simp add: to_double_numeral)

lemma exponent_example: "exponent (6755399441055745 / 3) = 51"
  unfolding exponent_def by (simp add: floor_rat_numeral floor_log2_51)

lemma to_double_example: "to_double (6755399441055745 / 3) = Fin (4503599627370497 / 2)"
  unfolding to_double_def
  by (simp add: exponent_example round_half_even_def Let_def floor_rat_numeral)

lemma mean_rounds:
  "Math_round (num_div (num_add (num_add (Fin 2251799813685249) (Fin 2251799813685248))
                          (Fin 2251799813685248)) (Fin 3)) = Fin 2251799813685249"
  unfolding star_sum_example by (simp add: to_double_example floor_rat_numeral)

lemma mean_exact:
  "\<lfloor>(2251799813685249 + 2251799813685248 + 2251799813685248) / 3 + 1 / 2 :: rat\<rfloor>
     = 2251799813685248"
  by (simp add: floor_rat_numeral)

section \<open>Properties of \<^verbatim>\<open>compare\<close>\<close>

lemma toISOString_Some: "toISOString (Some t) = Inr (iso_date t @ ''T'' @ iso_time t)"
  by (simp add: toISOString_def)

text \<open>The handler returns as soon as the comparison metrics do.\<close>

lemma compare_Inr:
  assumes "comparison w (filter succeeded (map (compare_item w) repos)) = Inr c"
  shows "compare w repos =
           Inr (JObj
             [(''requestedRepos'', JArr (map JStr repos)),
              (''count'', JNum (Fin (of_nat (length repos)))),
              (''repos'', JArr (map (compare_item w) repos)),
              (''comparison'', c),
              (''fetchedAt'', JStr (iso_date (Date_now w 0) @ ''T'' @ iso_time (Date_now w 0)))])"
  using assms by (simp add: compare_def toISOString_Some)

lemma comparison_Nil:
  "comparison w [] =
     Inr (JObj [(''mostStars'', JUndefined), (''mostForks'', JUndefined),
                (''mostRecent'', JUndefined), (''avgStars'', JNum NaN)])"
  by (simp add: comparison_def js_div_def ToNumber_def opt_chain_def)

lemma then_do_Inr: "then_do m f = Inr y \<longleftrightarrow> (\<exists>x. m = Inr x \<and> f x = Inr y)"
  by (cases m) simp_all

lemma finite_numberE:
  assumes "finite_number v"
  obtains q where "v = JNum (Fin q)"
  using assms by (auto simp: finite_number_def split: jsval.splits jsnum.splits)

lemma succeeded_not_nullish: "succeeded r \<Longrightarrow> \<not> nullish r"
  by (cases r) (simp_all add: succeeded_def)

text \<open>
  A fold whose callback keeps the accumulator only when its key is strictly greater ends
  on an element of the greatest key; either the initial accumulator, when every element
  has a smaller key, or the last element of the greatest key.
\<close>

lemma reduce_keeps:
  fixes k :: "jsval \<Rightarrow> 'k::linorder"
  assumes step: "\<And>a b. a \<in> S \<Longrightarrow> b \<in> S \<Longrightarrow> f a b = Inr (if k b < k a then a else b)"
    and "acc \<in> S" and "set xs \<subseteq> S"
  shows "\<exists>r. reduce f acc xs = Inr r \<and> k acc \<le> k r \<and> (\<forall>x\<in>set xs. k x \<le> k r) \<and>
           ((r = acc \<and> (\<forall>x\<in>set xs. k x < k acc)) \<or>
            (\<exists>i<length xs. r = xs ! i \<and> (\<forall>j<length xs. i < j \<longrightarrow> k (xs ! j) < k (xs ! i))))"
  using assms(2,3)
proof (induction xs arbitrary: acc)
  case Nil
  then show ?case by simp
next
  case (Cons x xs)
  define acc' where "acc' = (if k x < k acc then acc else x)"
  have fx: "f acc x = Inr acc'"
    using step[of acc x] Cons.prems by (simp add: acc'_def)
  have "acc' \<in> S" "set xs \<subseteq> S"
    using Cons.prems by (auto simp: acc'_def)
  from Cons.IH[OF this] obtain r where r: "reduce f acc' xs = Inr r" "k acc' \<le> k r"
    "\<forall>x\<in>set xs. k x \<le> k r"
    "(r = acc' \<and> (\<forall>x\<in>set xs. k x < k acc')) \<or>
       (\<exists>i<length xs. r = xs ! i \<and> (\<forall>j<length xs. i < j \<longrightarrow> k (xs ! j) < k (xs ! i)))"
    by blast
  have red: "reduce f acc (x # xs) = Inr r"
    using fx r(1) by simp
  have le: "k acc \<le> k r" "k x \<le> k r"
    using r(2) by (auto simp: acc'_def split: if_splits)
  from r(4) show ?case
  proof
    assume a: "r = acc' \<and> (\<forall>x\<in>set xs. k x < k acc')"
    show ?thesis
    proof (cases "k x < k acc")
      case True
      then have "r = acc \<and> (\<forall>y\<in>set (x # xs). k y < k acc)"
        using a by (simp add: acc'_def)
      with red le r(3) show ?thesis by auto
    next
      case False
      then have "r = (x # xs) ! 0" and "\<forall>j<length (x # xs). 0 < j \<longrightarrow> k ((x # xs) ! j) < k ((x # xs) ! 0)"
        using a by (auto simp: acc'_def nth_Cons split: nat.splits)
      then have "\<exists>i<length (x # xs). r = (x # xs) ! i \<and>
          (\<forall>j<length (x # xs). i < j \<longrightarrow> k ((x # xs) ! j) < k ((x # xs) ! i))"
        by (intro exI[of _ 0]) simp
      with red le r(3) show ?thesis by auto
    qed
  next
    assume "\<exists>i<length xs. r = xs ! i \<and> (\<forall>j<length xs. i < j \<longrightarrow> k (xs ! j) < k (xs ! i))"
    then obtain i where i: "i < length xs" "r = xs ! i"
      "\<forall>j<length xs. i < j \<longrightarrow> k (xs ! j) < k (xs ! i)"
      by blast
    have "\<forall>j<length (x # xs). Suc i < j \<longrightarrow> k ((x # xs) ! j) < k ((x # xs) ! Suc i)"
    proof (intro allI impI)
      fix j
      assume "j < length (x # xs)" "Suc i < j"
      then obtain j' where "j = Suc j'" "j' < length xs" "i < j'"
        by (cases j) auto
      with i(3) show "k ((x # xs) ! j) < k ((x # xs) ! Suc i)"
        by simp
    qed
    then have "\<exists>i<length (x # xs). r = (x # xs) ! i \<and>
        (\<forall>j<length (x # xs). i < j \<longrightarrow> k ((x # xs) ! j) < k ((x # xs) ! i))"
      using i(1,2) by (intro exI[of _ "Suc i"]) simp
    with red le r(3) show ?thesis by auto
  qed
qed

text \<open>Started from the first element, it ends on the last element of the greatest key.\<close>

lemma reduce_first_last_greatest:
  fixes k :: "jsval \<Rightarrow> 'k::linorder"
  assumes step: "\<And>a b. a \<in> set xs \<Longrightarrow> b \<in> set xs \<Longrightarrow> f a b = Inr (if k b < k a then a else b)"
    and "xs \<noteq> []"
  shows "\<exists>i. last_greatest k xs i \<and> reduce f (first xs) xs = Inr (xs ! i)"
proof -
  obtain y ys where xs: "xs = y # ys"
    using assms(2) by (cases xs) auto
  have "first xs \<in> set xs"
    by (simp add: xs)
  from reduce_keeps[of "set xs" f k "first xs" xs, OF step this]
  obtain r where r: "reduce f (first xs) xs = Inr r" "\<forall>x\<in>set xs. k x \<le> k r"
    "(r = first xs \<and> (\<forall>x\<in>set xs. k x < k (first xs))) \<or>
       (\<exists>i<length xs. r = xs ! i \<and> (\<forall>j<length xs. i < j \<longrightarrow> k (xs ! j) < k (xs ! i)))"
    by blast
  have "\<not> (\<forall>x\<in>set xs. k x < k (first xs))"
    by (auto simp: xs)
  with r(3) obtain i where i: "i < length xs" "r = xs ! i"
    "\<forall>j<length xs. i < j \<longrightarrow> k (xs ! j) < k (xs ! i)"
    by blast
  have "last_greatest k xs i"
    unfolding last_greatest_def using i r(2) by auto
  with r(1) i(2) show ?thesis by blast
qed


text \<open>The three callbacks, on entries whose values are finite numbers or valid dates.\<close>

lemma more_stars_finite:
  assumes "\<not> nullish a" "\<not> nullish b"
    and "finite_number (get a ''stars'')" "finite_number (get b ''stars'')"
  shows "more_stars w a b =
           Inr (if number_of (get b ''stars'') < number_of (get a ''stars'') then a else b)"
proof -
  from assms(3,4) obtain x y where "get a ''stars'' = JNum (Fin x)" "get b ''stars'' = JNum (Fin y)"
    by (elim finite_numberE)
  with assms(1,2) show ?thesis
    by (simp add: more_stars_def get_member_def js_gt_def number_of_def)
qed

lemma more_forks_finite:
  assumes "\<not> nullish a" "\<not> nullish b"
    and "finite_number (get a ''forks'')" "finite_number (get b ''forks'')"
  shows "more_forks w a b =
           Inr (if number_of (get b ''forks'') < number_of (get a ''forks'') then a else b)"
proof -
  from assms(3,4) obtain x y where "get a ''forks'' = JNum (Fin x)" "get b ''forks'' = JNum (Fin y)"
    by (elim finite_numberE)
  with assms(1,2) show ?thesis
    by (simp add: more_forks_def get_member_def js_gt_def number_of_def)
qed

lemma pushed_time_SomeD:
  "pushed_time w r = Some t \<Longrightarrow> new_Date w (get r ''pushedAt'') = Inr (Some t)"
  by (simp add: pushed_time_def split: sum.splits)

lemma more_recent_valid:
  assumes "\<not> nullish a" "\<not> nullish b"
    and "pushed_time w a \<noteq> None" "pushed_time w b \<noteq> None"
  shows "more_recent w a b =
           Inr (if the (pushed_time w b) < the (pushed_time w a) then a else b)"
proof -
  from assms(3,4) obtain ta tb where t: "pushed_time w a = Some ta" "pushed_time w b = Some tb"
    by auto
  show ?thesis
    using assms(1,2) pushed_time_SomeD[OF t(1)] pushed_time_SomeD[OF t(2)] t
    by (simp add: more_recent_def get_member_def)
qed

text \<open>What a comparison that returned is made of, and what an output of the handler is.\<close>

lemma comparison_InrD:
  assumes "comparison w ys = Inr c"
  obtains s f r n where
    "reduce (more_stars w) (first ys) ys = Inr s"
    "reduce (more_forks w) (first ys) ys = Inr f"
    "reduce (more_recent w) (first ys) ys = Inr r"
    "reduce (add_stars w) (JNum (Fin 0)) ys = Inr n"
    "c = JObj [(''mostStars'', opt_chain s ''fullName''),
               (''mostForks'', opt_chain f ''fullName''),
               (''mostRecent'', opt_chain r ''fullName''),
               (''avgStars'', JNum (Math_round
                  (case js_div w n (JNum (Fin (of_nat (length ys)))) of Inr m \<Rightarrow> m | Inl e \<Rightarrow> NaN)))]"
  using assms unfolding comparison_def then_do_Inr by auto

lemma compare_InrD:
  assumes "compare w repos = Inr out"
  obtains c where
    "comparison w (filter succeeded (map (compare_item w) repos)) = Inr c"
    "out = JObj
             [(''requestedRepos'', JArr (map JStr repos)),
              (''count'', JNum (Fin (of_nat (length repos)))),
              (''repos'', JArr (map (compare_item w) repos)),
              (''comparison'', c),
              (''fetchedAt'', JStr (iso_date (Date_now w 0) @ ''T'' @ iso_time (Date_now w 0)))]"
proof -
  from assms obtain c where c: "comparison w (filter succeeded (map (compare_item w) repos)) = Inr c"
    unfolding compare_def Let_def then_do_Inr by blast
  from compare_Inr[OF c] assms that[OF c] show ?thesis
    by simp
qed

text \<open>The sum of star counts: below \<open>2^52\<close> no partial sum is rounded.\<close>

lemma star_countE:
  assumes "star_count v"
  obtains n where "v = JNum (Fin (of_int n))" "0 \<le> n"
proof -
  from assms obtain q where v: "v = JNum (Fin q)"
    by (auto simp: star_count_def split: jsval.splits jsnum.splits)
  with assms have q: "0 \<le> q" "of_int \<lfloor>q\<rfloor> = q"
    by (simp_all add: star_count_def)
  from q(1) have "0 \<le> \<lfloor>q\<rfloor>"
    by simp
  moreover have "v = JNum (Fin (of_int \<lfloor>q\<rfloor>))"
    unfolding q(2) by (rule v)
  ultimately show thesis
    by (rule that[rotated])
qed

lemma total_stars_Cons:
  "total_stars (r # rs) = number_of (get r ''stars'') + total_stars rs"
  by (simp add: total_stars_def)

lemma total_stars_int:
  assumes "\<forall>r\<in>set ys. star_count (get r ''stars'')"
  shows "\<exists>S. 0 \<le> S \<and> total_stars ys = of_int S"
  using assms
proof (induction ys)
  case Nil
  then show ?case
    by (simp add: total_stars_def)
next
  case (Cons y ys)
  then obtain S where S: "0 \<le> S" "total_stars ys = of_int S"
    by auto
  from Cons.prems obtain n where n: "get y ''stars'' = JNum (Fin (of_int n))" "0 \<le> n"
    by (auto elim: star_countE)
  have "total_stars (y # ys) = of_int (n + S)"
    by (simp add: total_stars_Cons n(1) S(2) number_of_def)
  with S(1) n(2) show ?case
    by (intro exI[of _ "n + S"]) simp
qed

lemma add_stars_count:
  assumes "\<not> nullish r" "get r ''stars'' = JNum (Fin (of_int n))"
    and "0 \<le> a" "0 \<le> n" "a + n < 2 ^ 52"
  shows "add_stars w (JNum (Fin (of_int a))) r = Inr (JNum (Fin (of_int (a + n))))"
proof -
  have "to_double (of_int a + of_int n) = Fin (of_int (a + n))"
    using to_double_int[of "a + n"] assms(3-5) by simp
  with assms(1,2) show ?thesis
    by (simp add: add_stars_def get_member_def js_add_def)
qed

lemma reduce_add_stars:
  assumes "\<forall>r\<in>set ys. \<not> nullish r \<and> star_count (get r ''stars'')"
    and "0 \<le> a" "of_int a + total_stars ys < 2 ^ 52"
  shows "reduce (add_stars w) (JNum (Fin (of_int a))) ys =
           Inr (JNum (Fin (of_int a + total_stars ys)))"
  using assms
proof (induction ys arbitrary: a)
  case Nil
  then show ?case
    by (simp add: total_stars_def)
next
  case (Cons y ys)
  from Cons.prems(1) obtain n where n: "get y ''stars'' = JNum (Fin (of_int n))" "0 \<le> n"
    by (auto elim: star_countE)
  from Cons.prems(1) obtain S where S: "0 \<le> S" "total_stars ys = of_int S"
    using total_stars_int[of ys] by auto
  have t: "total_stars (y # ys) = of_int n + total_stars ys"
    by (simp add: total_stars_Cons n(1) number_of_def)
  from Cons.prems(3) have "(of_int (a + n + S) :: rat) < 2 ^ 52"
    unfolding t S(2) by (simp add: add.assoc)
  then have b: "a + n + S < 2 ^ 52"
    by (metis of_int_less_numeral_power_cancel_iff)
  with S(1) have an: "a + n < 2 ^ 52"
    by simp
  from Cons.prems(1) have y: "\<not> nullish y"
    by simp
  have step: "add_stars w (JNum (Fin (of_int a))) y = Inr (JNum (Fin (of_int (a + n))))"
    by (rule add_stars_count[OF y n(1) Cons.prems(2) n(2) an])
  have "reduce (add_stars w) (JNum (Fin (of_int (a + n)))) ys =
          Inr (JNum (Fin (of_int (a + n) + total_stars ys)))"
  proof (rule Cons.IH)
    show "\<forall>r\<in>set ys. \<not> nullish r \<and> star_count (get r ''stars'')"
      using Cons.prems(1) by simp
    show "0 \<le> a + n"
      using Cons.prems(2) n(2) by simp
    show "of_int (a + n) + total_stars ys < 2 ^ 52"
      using Cons.prems(3) unfolding t by (simp add: add.assoc)
  qed
  with step show ?case
    unfolding t by (simp add: add.assoc)
qed

lemma round_half_up_near:
  fixes q :: rat
  shows "\<bar>of_int \<lfloor>q + 1 / 2\<rfloor> - q\<bar> \<le> 1 / 2"
proof -
  have "of_int \<lfloor>q + 1 / 2\<rfloor> \<le> q + 1 / 2" and "q + 1 / 2 < of_int \<lfloor>q + 1 / 2\<rfloor> + 1"
    by linarith+
  then show ?thesis
    by linarith
qed

text \<open>
  The conversions do not throw on convertible values, so the comparison metrics return
  for entries that can be compared.
\<close>

lemma ToString_total:
  "convertible v \<Longrightarrow> \<exists>s. ToString w v = Inr s"
  "(\<forall>x\<in>set xs. nullish x \<or> convertible x) \<Longrightarrow> \<exists>s. join w xs = Inr s"
proof (induction w v and w xs rule: ToString_join.induct)
  case (9 w x xs)
  then show ?case
    by (cases "nullish x") auto
qed auto

lemma ToPrimitive_total:
  assumes "convertible v"
  shows "\<exists>p. ToPrimitive w v = Inr p \<and> primitive p"
proof (cases v)
  case (JArr xs)
  with ToString_total(1)[OF assms, of w] show ?thesis by auto
next
  case (JObj kvs)
  with assms have "''toString'' \<notin> fst ` set kvs" by simp
  with JObj show ?thesis by simp
qed auto

lemma ToPrimitive_primitive: "primitive p \<Longrightarrow> ToPrimitive w p = Inr p"
  by (cases p) auto

lemma primitive_convertible: "primitive p \<Longrightarrow> convertible p"
  by (cases p) auto

lemma js_gt_total:
  assumes "convertible a" "convertible b"
  shows "\<exists>g. js_gt w a b = Inr g"
  using ToPrimitive_total[OF assms(1), of w] ToPrimitive_total[OF assms(2), of w]
  by (auto simp: js_gt_def)

lemma js_add_total:
  assumes "primitive a" "convertible b"
  shows "\<exists>r. js_add w a b = Inr r \<and> primitive r"
proof -
  from ToPrimitive_total[OF assms(2), of w] obtain pb
    where pb: "ToPrimitive w b = Inr pb" "primitive pb" by blast
  from ToString_total(1)[OF primitive_convertible[OF assms(1)], of w]
  obtain s where s: "ToString w a = Inr s" by blast
  from ToString_total(1)[OF primitive_convertible[OF pb(2)], of w]
  obtain t where t: "ToString w pb = Inr t" by blast
  show ?thesis
    using pb s t by (simp add: js_add_def ToPrimitive_primitive[OF assms(1)])
qed

lemma new_Date_total:
  assumes "convertible v"
  shows "\<exists>d. new_Date w v = Inr d"
  using ToPrimitive_total[OF assms, of w] by (auto simp: new_Date_def)

lemma reduce_total:
  assumes "\<And>a b. P a \<Longrightarrow> b \<in> set xs \<Longrightarrow> \<exists>r. f a b = Inr r \<and> P r" and "P acc"
  shows "\<exists>r. reduce f acc xs = Inr r \<and> P r"
  using assms
proof (induction xs arbitrary: acc)
  case Nil
  then show ?case by simp
next
  case (Cons x xs)
  from Cons.prems(1)[OF Cons.prems(2), of x] obtain a where a: "f acc x = Inr a" "P a"
    by auto
  have "\<exists>r. reduce f a xs = Inr r \<and> P r"
    using Cons.prems(1) a(2) by (intro Cons.IH) auto
  with a(1) show ?case by simp
qed

lemma comparison_total:
  assumes "\<forall>r\<in>set ys. \<not> nullish r \<and> comparable r"
  shows "\<exists>c. comparison w ys = Inr c"
proof (cases ys)
  case Nil
  then show ?thesis by (simp add: comparison_Nil)
next
  case (Cons y ys')
  then have first: "first ys \<in> set ys" by simp
  have s: "\<exists>r. reduce (more_stars w) (first ys) ys = Inr r \<and> r \<in> set ys"
  proof (rule reduce_total[where P = "\<lambda>a. a \<in> set ys"])
    fix a b assume "a \<in> set ys" "b \<in> set ys"
    then show "\<exists>r. more_stars w a b = Inr r \<and> r \<in> set ys"
      using assms js_gt_total[of "get a ''stars''" "get b ''stars''" w]
      by (auto simp: more_stars_def get_member_def comparable_def)
  qed (rule first)
  have f: "\<exists>r. reduce (more_forks w) (first ys) ys = Inr r \<and> r \<in> set ys"
  proof (rule reduce_total[where P = "\<lambda>a. a \<in> set ys"])
    fix a b assume "a \<in> set ys" "b \<in> set ys"
    then show "\<exists>r. more_forks w a b = Inr r \<and> r \<in> set ys"
      using assms js_gt_total[of "get a ''forks''" "get b ''forks''" w]
      by (auto simp: more_forks_def get_member_def comparable_def)
  qed (rule first)
  have r: "\<exists>r. reduce (more_recent w) (first ys) ys = Inr r \<and> r \<in> set ys"
  proof (rule reduce_total[where P = "\<lambda>a. a \<in> set ys"])
    fix a b assume "a \<in> set ys" "b \<in> set ys"
    then show "\<exists>r. more_recent w a b = Inr r \<and> r \<in> set ys"
      using assms new_Date_total[of "get a ''pushedAt''" w] new_Date_total[of "get b ''pushedAt''" w]
      by (auto simp: more_recent_def get_member_def comparable_def)
  qed (rule first)
  have t: "\<exists>r. reduce (add_stars w) (JNum (Fin 0)) ys = Inr r \<and> primitive r"
  proof (rule reduce_total[where P = primitive])
    fix a b assume "primitive a" "b \<in> set ys"
    then show "\<exists>r. add_stars w a b = Inr r \<and> primitive r"
      using assms js_add_total[of a "get b ''stars''" w]
      by (auto simp: add_stars_def get_member_def comparable_def)
  qed simp
  from s f r t show ?thesis
    by (auto simp: comparison_def js_div_def ToNumber_def ToPrimitive_primitive)
qed


text \<open>The entry of a name has the status \<^verbatim>\<open>success\<close> or the status \<^verbatim>\<open>error\<close>, never
  both.\<close>

lemma formatRepo_InrD:
  assumes "formatRepo w repo = Inr f"
  shows "f = JObj
         [(''fullName'', get repo ''full_name''),
          (''name'', get repo ''name''),
          (''owner'', opt_chain (get repo ''owner'') ''login''),
          (''description'', get repo ''description''),
          (''stars'', get repo ''stargazers_count''),
          (''forks'', get repo ''forks_count''),
          (''watchers'', get repo ''watchers_count''),
          (''openIssues'', get repo ''open_issues_count''),
          (''language'', get repo ''language''),
          (''topics'', js_or (get repo ''topics'') (JArr [])),
          (''license'', js_or (opt_chain (get repo ''license'') ''spdx_id'') JNull),
          (''createdAt'', get repo ''created_at''),
          (''updatedAt'', get repo ''updated_at''),
          (''pushedAt'', get repo ''pushed_at''),
          (''defaultBranch'', get repo ''default_branch''),
          (''homepage'', js_or (get repo ''homepage'') JNull),
          (''url'', get repo ''html_url''),
          (''isArchived'', get repo ''archived''),
          (''isFork'', get repo ''fork'')]"
    and "\<not> nullish repo"
  using assms by (auto simp: formatRepo_def get_member_def split: if_splits)

lemma compare_item_error:
  assumes "fetchGitHub w (''/repos/'' @ repo) = Inl e"
  shows "compare_item w repo =
           JObj [(''fullName'', JStr repo), (''status'', JStr ''error''),
                 (''error'', JStr (message e))]"
  using assms by (simp add: compare_item_def)

lemma compare_item_status:
  "succeeded (compare_item w repo) \<noteq> (get (compare_item w repo) ''status'' = JStr ''error'')"
proof (cases "fetchGitHub w (''/repos/'' @ repo)")
  case (Inl e)
  then show ?thesis
    by (simp add: compare_item_error succeeded_def)
next
  case (Inr d)
  show ?thesis
  proof (cases "formatRepo w d")
    case (Inl e)
    with Inr show ?thesis
      by (simp add: compare_item_def succeeded_def)
  next
    case f: (Inr f)
    show ?thesis
      using Inr f unfolding formatRepo_InrD(1)[OF f]
      by (simp add: compare_item_def succeeded_def)
  qed
qed

lemma successful_of_succeeding:
  "filter succeeded (map (compare_item w) (filter (\<lambda>repo. succeeded (compare_item w repo)) repos))
     = filter succeeded (map (compare_item w) repos)"
  by (induction repos) simp_all

section \<open>The example worlds, evaluated\<close>

text \<open>
  The upstream of an example world is its table; the entries of a comparison in such a
  world follow from the table.
\<close>

lemma digits_404: "digits 404 = ''404''"
  by (simp add: digits.simps digit_char_def)

lemma map_of_prefixed:
  "map_of (map (\<lambda>(p, v). (pre @ p, v)) up) (pre @ path) = map_of up path"
  by (induction up) auto

lemma fetchGitHub_example:
  "fetchGitHub (example_world up dates now) path =
     (case map_of up path of
        Some v \<Rightarrow> Inr v
      | None \<Rightarrow> Inl (Error ''GitHub API error: 404 - Not Found''))"
  by (simp add: fetchGitHub_def example_world_def map_of_prefixed digits_404 split: option.split)

lemma example_world_sel:
  "Date_now (example_world up dates now) k = now"
  "Date_parse (example_world up dates now) s =
     (case map_of dates s of Some t \<Rightarrow> Fin (of_int t) | None \<Rightarrow> NaN)"
  "TypeErrorMessage (example_world up dates now) key = ''Cannot read property '' @ key"
  "NumberToString (example_world up dates now) q = ''?''"
  by (simp_all add: example_world_def)

lemma formatRepo_raw_repo:
  "formatRepo w (raw_repo n s f p) =
     Inr (JObj
       [(''fullName'', JStr n), (''name'', JUndefined), (''owner'', JUndefined),
        (''description'', JUndefined), (''stars'', JNum (Fin s)), (''forks'', JNum (Fin f)),
        (''watchers'', JUndefined), (''openIssues'', JUndefined), (''language'', JUndefined),
        (''topics'', JArr []), (''license'', JNull), (''createdAt'', JUndefined),
        (''updatedAt'', JUndefined), (''pushedAt'', JStr p),
        (''defaultBranch'', JUndefined), (''homepage'', JNull), (''url'', JUndefined),
        (''isArchived'', JUndefined), (''isFork'', JUndefined)])"
  by (simp add: formatRepo_def raw_repo_def get_member_def opt_chain_def js_or_def)

lemma compare_item_known:
  assumes "map_of up (''/repos/'' @ repo) = Some (raw_repo n s f p)"
  shows "compare_item (example_world up dates now) repo =
     JObj
       [(''fullName'', JStr n), (''name'', JUndefined), (''owner'', JUndefined),
        (''description'', JUndefined), (''stars'', JNum (Fin s)), (''forks'', JNum (Fin f)),
        (''watchers'', JUndefined), (''openIssues'', JUndefined), (''language'', JUndefined),
        (''topics'', JArr []), (''license'', JNull), (''createdAt'', JUndefined),
        (''updatedAt'', JUndefined), (''pushedAt'', JStr p),
        (''defaultBranch'', JUndefined), (''homepage'', JNull), (''url'', JUndefined),
        (''isArchived'', JUndefined), (''isFork'', JUndefined),
        (''languages'',
           catch (fetchGitHub (example_world up dates now) (''/repos/'' @ repo @ ''/languages''))
             (JObj [])),
        (''status'', JStr ''success'')]"
  using assms by (simp add: compare_item_def fetchGitHub_example formatRepo_raw_repo)

lemma compare_item_unknown:
  assumes "map_of up (''/repos/'' @ repo) = None"
  shows "compare_item (example_world up dates now) repo =
     JObj [(''fullName'', JStr repo), (''status'', JStr ''error''),
           (''error'', JStr ''GitHub API error: 404 - Not Found'')]"
  using assms by (simp add: compare_item_def fetchGitHub_example)

lemma known_entry:
  assumes "map_of up (''/repos/'' @ repo) = Some (raw_repo n s f p)"
  shows "succeeded (compare_item (example_world up dates now) repo)"
    "\<not> nullish (compare_item (example_world up dates now) repo)"
    "get (compare_item (example_world up dates now) repo) ''fullName'' = JStr n"
    "get (compare_item (example_world up dates now) repo) ''stars'' = JNum (Fin s)"
    "get (compare_item (example_world up dates now) repo) ''forks'' = JNum (Fin f)"
    "get (compare_item (example_world up dates now) repo) ''pushedAt'' = JStr p"
  unfolding compare_item_known[OF assms] by (simp_all add: succeeded_def)

lemma unknown_entry:
  assumes "map_of up (''/repos/'' @ repo) = None"
  shows "\<not> succeeded (compare_item (example_world up dates now) repo)"
  unfolding compare_item_unknown[OF assms] by (simp add: succeeded_def)

text \<open>What the handler returned, once the comparison of the successful entries is known.\<close>

lemma compare_returned:
  assumes "comparison w (filter succeeded (map (compare_item w) repos)) = Inr c"
  shows "compare w repos = Inr (returned (compare w repos))"
    "get (returned (compare w repos)) ''comparison'' = c"
    "get (returned (compare w repos)) ''repos'' = JArr (map (compare_item w) repos)"
    "get (returned (compare w repos)) ''count'' = JNum (Fin (of_nat (length repos)))"
  by (simp_all add: compare_Inr[OF assms])

lemmas comparison_eval =
  comparison_def more_stars_def more_forks_def more_recent_def add_stars_def get_member_def
  js_gt_def js_add_def js_div_def ToNumber_def new_Date_def opt_chain_def

lemma tie_items:
  "map_of [(''/repos/a/a'', raw_repo ''a/a'' 5 1 ''2026-01-02T00:00:00Z''),
           (''/repos/b/b'', raw_repo ''b/b'' 5 1 ''2026-01-02T00:00:00Z'')] (''/repos/'' @ ''a/a'')
    = Some (raw_repo ''a/a'' 5 1 ''2026-01-02T00:00:00Z'')"
  "map_of [(''/repos/a/a'', raw_repo ''a/a'' 5 1 ''2026-01-02T00:00:00Z''),
           (''/repos/b/b'', raw_repo ''b/b'' 5 1 ''2026-01-02T00:00:00Z'')] (''/repos/'' @ ''b/b'')
    = Some (raw_repo ''b/b'' 5 1 ''2026-01-02T00:00:00Z'')"
  by simp_all

lemmas tie_a =
  known_entry[OF tie_items(1), of "[(''2026-01-02T00:00:00Z'', 1767312000000)]" 1767225600000,
    folded tie_world_def]

lemmas tie_b =
  known_entry[OF tie_items(2), of "[(''2026-01-02T00:00:00Z'', 1767312000000)]" 1767225600000,
    folded tie_world_def]

lemma tie_Date_parse:
  "Date_parse tie_world ''2026-01-02T00:00:00Z'' = Fin 1767312000000"
  by (simp add: tie_world_def example_world_sel)

lemma tie_successful:
  "filter succeeded (map (compare_item tie_world) [''a/a'', ''b/b''])
     = [compare_item tie_world ''a/a'', compare_item tie_world ''b/b'']"
  by (simp add: tie_a tie_b)

lemma tie_comparison:
  "comparison tie_world (filter succeeded (map (compare_item tie_world) [''a/a'', ''b/b''])) =
     Inr (JObj [(''mostStars'', JStr ''b/b''), (''mostForks'', JStr ''b/b''),
                (''mostRecent'', JStr ''b/b''), (''avgStars'', JNum (Fin 5))])"
  unfolding tie_successful
  by (simp add: comparison_eval tie_a tie_b tie_Date_parse floor_rat_numeral to_double_numeral)


lemma three_items:
  "map_of [(''/repos/a/a'', raw_repo ''a/a'' 10 0 ''2026-01-02T00:00:00Z''),
           (''/repos/b/b'', raw_repo ''b/b'' 30 0 ''2026-01-02T00:00:00Z''),
           (''/repos/c/c'', raw_repo ''c/c'' 50 0 ''2026-01-02T00:00:00Z'')] (''/repos/'' @ ''a/a'')
    = Some (raw_repo ''a/a'' 10 0 ''2026-01-02T00:00:00Z'')"
  "map_of [(''/repos/a/a'', raw_repo ''a/a'' 10 0 ''2026-01-02T00:00:00Z''),
           (''/repos/b/b'', raw_repo ''b/b'' 30 0 ''2026-01-02T00:00:00Z''),
           (''/repos/c/c'', raw_repo ''c/c'' 50 0 ''2026-01-02T00:00:00Z'')] (''/repos/'' @ ''b/b'')
    = Some (raw_repo ''b/b'' 30 0 ''2026-01-02T00:00:00Z'')"
  "map_of [(''/repos/a/a'', raw_repo ''a/a'' 10 0 ''2026-01-02T00:00:00Z''),
           (''/repos/b/b'', raw_repo ''b/b'' 30 0 ''2026-01-02T00:00:00Z''),
           (''/repos/c/c'', raw_repo ''c/c'' 50 0 ''2026-01-02T00:00:00Z'')] (''/repos/'' @ ''c/c'')
    = Some (raw_repo ''c/c'' 50 0 ''2026-01-02T00:00:00Z'')"
  by simp_all

lemmas three_a =
  known_entry[OF three_items(1), of "[(''2026-01-02T00:00:00Z'', 1767312000000)]" 1767225600000,
    folded three_world_def]

lemmas three_b =
  known_entry[OF three_items(2), of "[(''2026-01-02T00:00:00Z'', 1767312000000)]" 1767225600000,
    folded three_world_def]

lemmas three_c =
  known_entry[OF three_items(3), of "[(''2026-01-02T00:00:00Z'', 1767312000000)]" 1767225600000,
    folded three_world_def]

lemma three_Date_parse:
  "Date_parse three_world ''2026-01-02T00:00:00Z'' = Fin 1767312000000"
  by (simp add: three_world_def example_world_sel)

lemma three_successful:
  "filter succeeded (map (compare_item three_world) [''a/a'', ''b/b'', ''c/c''])
     = [compare_item three_world ''a/a'', compare_item three_world ''b/b'',
        compare_item three_world ''c/c'']"
  by (simp add: three_a three_b three_c)

lemma three_comparison:
  "comparison three_world
     (filter succeeded (map (compare_item three_world) [''a/a'', ''b/b'', ''c/c''])) =
     Inr (JObj [(''mostStars'', JStr ''c/c''), (''mostForks'', JStr ''c/c''),
                (''mostRecent'', JStr ''c/c''), (''avgStars'', JNum (Fin 30))])"
  unfolding three_successful
  by (simp add: comparison_eval three_a three_b three_c three_Date_parse floor_rat_numeral to_double_numeral)

lemma partial_items:
  "map_of [(''/repos/b/b'', raw_repo ''b/b'' 7 3 ''2026-01-02T00:00:00Z'')] (''/repos/'' @ ''a/a'')
    = None"
  "map_of [(''/repos/b/b'', raw_repo ''b/b'' 7 3 ''2026-01-02T00:00:00Z'')] (''/repos/'' @ ''b/b'')
    = Some (raw_repo ''b/b'' 7 3 ''2026-01-02T00:00:00Z'')"
  by simp_all

lemmas partial_a =
  unknown_entry[OF partial_items(1), of "[(''2026-01-02T00:00:00Z'', 1767312000000)]"
    1767225600000, folded partial_world_def]
  compare_item_unknown[OF partial_items(1), of "[(''2026-01-02T00:00:00Z'', 1767312000000)]"
    1767225600000, folded partial_world_def]

lemmas partial_b =
  known_entry[OF partial_items(2), of "[(''2026-01-02T00:00:00Z'', 1767312000000)]"
    1767225600000, folded partial_world_def]

lemma partial_Date_parse:
  "Date_parse partial_world ''2026-01-02T00:00:00Z'' = Fin 1767312000000"
  by (simp add: partial_world_def example_world_sel)

lemma partial_successful:
  "filter succeeded (map (compare_item partial_world) [''a/a'', ''b/b''])
     = [compare_item partial_world ''b/b'']"
  by (simp add: partial_a(1) partial_b)

lemma partial_comparison:
  "comparison partial_world (filter succeeded (map (compare_item partial_world) [''a/a'', ''b/b'']))
     = Inr (JObj [(''mostStars'', JStr ''b/b''), (''mostForks'', JStr ''b/b''),
                  (''mostRecent'', JStr ''b/b''), (''avgStars'', JNum (Fin 7))])"
  unfolding partial_successful
  by (simp add: comparison_eval partial_b partial_Date_parse floor_rat_numeral to_double_numeral)

text \<open>
  Claim C1. Whatever calls fail, the handler returns, as long as the stars, forks and
  push dates of the entries that succeeded can be compared. The entries are those of
  the requested names, in their order; a name whose repository call failed with \<open>e\<close>
  has the entry of its name, the status \<^verbatim>\<open>error\<close> and the message of \<open>e\<close>; the
  comparison is that of the entries with the status \<^verbatim>\<open>success\<close>, and it is the one
  a request for the succeeding names alone would get.
\<close>

theorem compare_isolates_failures:
  assumes "\<forall>r\<in>set (filter succeeded (map (compare_item w) repos)). comparable r"
  shows "\<exists>out. compare w repos = Inr out
           \<and> get out ''repos'' = JArr (map (compare_item w) repos)
           \<and> (\<forall>i<length repos. \<forall>e. fetchGitHub w (''/repos/'' @ repos ! i) = Inl e \<longrightarrow>
                 compare_item w (repos ! i) =
                   JObj [(''fullName'', JStr (repos ! i)), (''status'', JStr ''error''),
                         (''error'', JStr (message e))])
           \<and> comparison w (filter succeeded (map (compare_item w) repos))
               = Inr (get out ''comparison'')
           \<and> (\<exists>out'. compare w (filter (\<lambda>repo. succeeded (compare_item w repo)) repos)
                         = Inr out'
                  \<and> get out' ''comparison'' = get out ''comparison'')"
proof -
  have "\<forall>r\<in>set (filter succeeded (map (compare_item w) repos)). \<not> nullish r \<and> comparable r"
    using assms succeeded_not_nullish by auto
  from comparison_total[OF this] obtain c
    where c: "comparison w (filter succeeded (map (compare_item w) repos)) = Inr c"
    by blast
  note out = compare_Inr[OF c]
  have "comparison w (filter succeeded (map (compare_item w)
          (filter (\<lambda>repo. succeeded (compare_item w repo)) repos))) = Inr c"
    using c by (simp only: successful_of_succeeding)
  note out' = compare_Inr[OF this]
  show ?thesis
    unfolding out out' using c by (simp add: compare_item_error)
qed

text \<open>The request \<^verbatim>\<open>["a/a", "b/b"]\<close> when the call for \<^verbatim>\<open>a/a\<close> fails and the one for
  \<^verbatim>\<open>b/b\<close> succeeds.\<close>

theorem compare_isolates_failures_witness:
  "(\<exists>out. compare partial_world [''a/a'', ''b/b''] = Inr out
           \<and> get out ''repos'' = JArr (map (compare_item partial_world) [''a/a'', ''b/b''])
           \<and> (\<forall>i<length [''a/a'', ''b/b'']. \<forall>e.
                 fetchGitHub partial_world (''/repos/'' @ [''a/a'', ''b/b''] ! i) = Inl e \<longrightarrow>
                 compare_item partial_world ([''a/a'', ''b/b''] ! i) =
                   JObj [(''fullName'', JStr ([''a/a'', ''b/b''] ! i)), (''status'', JStr ''error''),
                         (''error'', JStr (message e))])
           \<and> comparison partial_world
                (filter succeeded (map (compare_item partial_world) [''a/a'', ''b/b'']))
               = Inr (get out ''comparison'')
           \<and> (\<exists>out'. compare partial_world
                         (filter (\<lambda>repo. succeeded (compare_item partial_world repo)) [''a/a'', ''b/b''])
                         = Inr out'
                  \<and> get out' ''comparison'' = get out ''comparison''))
   \<and> compare_item partial_world ''a/a'' =
       JObj [(''fullName'', JStr ''a/a''), (''status'', JStr ''error''),
             (''error'', JStr ''GitHub API error: 404 - Not Found'')]
   \<and> succeeded (compare_item partial_world ''b/b'')
   \<and> get (returned (compare partial_world [''a/a'', ''b/b''])) ''comparison'' =
       JObj [(''mostStars'', JStr ''b/b''), (''mostForks'', JStr ''b/b''),
             (''mostRecent'', JStr ''b/b''), (''avgStars'', JNum (Fin 7))]"
proof -
  have h: "\<forall>r\<in>set (filter succeeded (map (compare_item partial_world) [''a/a'', ''b/b''])).
             comparable r"
    unfolding partial_successful by (simp add: comparable_def partial_b)
  from compare_isolates_failures[OF h] partial_a(2) partial_b(1)
    compare_returned(2)[OF partial_comparison]
  show ?thesis
    by blast
qed

text \<open>
  Claim C3, as the code has it. When no requested repository succeeds, the handler
  still returns; \<^verbatim>\<open>mostStars\<close>, \<^verbatim>\<open>mostForks\<close> and \<^verbatim>\<open>mostRecent\<close> are undefined, not
  null, and \<^verbatim>\<open>avgStars\<close> is NaN. In the JSON a client reads the three names are
  missing, and \<^verbatim>\<open>avgStars\<close> is null.
\<close>

theorem compare_none_succeeded:
  assumes "\<forall>repo\<in>set repos. \<not> succeeded (compare_item w repo)"
  shows "\<exists>out. compare w repos = Inr out
           \<and> get out ''comparison'' =
               JObj [(''mostStars'', JUndefined), (''mostForks'', JUndefined),
                     (''mostRecent'', JUndefined), (''avgStars'', JNum NaN)]
           \<and> as_json (get out ''comparison'') = JObj [(''avgStars'', JNull)]"
proof -
  have "filter succeeded (map (compare_item w) repos) = []"
    using assms by (simp add: filter_empty_conv)
  then have "comparison w (filter succeeded (map (compare_item w) repos)) =
     Inr (JObj [(''mostStars'', JUndefined), (''mostForks'', JUndefined),
                (''mostRecent'', JUndefined), (''avgStars'', JNum NaN)])"
    by (simp add: comparison_Nil)
  from compare_Inr[OF this] show ?thesis
    by simp
qed

text \<open>Two names, both unknown upstream.\<close>

theorem compare_none_succeeded_witness:
  "\<exists>out. compare (example_world [] [] 0) [''a/a'', ''b/b''] = Inr out
           \<and> get out ''comparison'' =
               JObj [(''mostStars'', JUndefined), (''mostForks'', JUndefined),
                     (''mostRecent'', JUndefined), (''avgStars'', JNum NaN)]
           \<and> as_json (get out ''comparison'') = JObj [(''avgStars'', JNull)]"
proof -
  have "\<forall>repo\<in>set [''a/a'', ''b/b'']. \<not> succeeded (compare_item (example_world [] [] 0) repo)"
    by (simp add: unknown_entry)
  then show ?thesis
    by (rule compare_none_succeeded)
qed

text \<open>
  Claim C3, as stated, fails: with both names unknown upstream, the three names of the
  comparison are undefined and the average is NaN; none of the four is null.
\<close>

theorem compare_none_succeeded_counterexample:
  "get (returned (compare (example_world [] [] 0) [''a/a'', ''b/b''])) ''comparison'' =
     JObj [(''mostStars'', JUndefined), (''mostForks'', JUndefined),
           (''mostRecent'', JUndefined), (''avgStars'', JNum NaN)]
   \<and> get (returned (compare (example_world [] [] 0) [''a/a'', ''b/b''])) ''repos'' =
       JArr [JObj [(''fullName'', JStr ''a/a''), (''status'', JStr ''error''),
                   (''error'', JStr ''GitHub API error: 404 - Not Found'')],
             JObj [(''fullName'', JStr ''b/b''), (''status'', JStr ''error''),
                   (''error'', JStr ''GitHub API error: 404 - Not Found'')]]
   \<and> JUndefined \<noteq> JNull \<and> JNum NaN \<noteq> JNull"
proof -
  have "comparison (example_world [] [] 0)
          (filter succeeded (map (compare_item (example_world [] [] 0)) [''a/a'', ''b/b''])) =
        Inr (JObj [(''mostStars'', JUndefined), (''mostForks'', JUndefined),
                   (''mostRecent'', JUndefined), (''avgStars'', JNum NaN)])"
    by (simp add: unknown_entry comparison_Nil)
  from compare_returned[OF this] show ?thesis
    by (simp add: compare_item_unknown)
qed

text \<open>
  Claim C4, as the code has it. The callback keeps the accumulator only when its value
  is strictly greater, so on equal values the later entry replaces it: each fold names
  the last of the successful entries with the greatest value. The three parts hold
  when the stars, or the forks, are finite numbers, or the push dates are valid.
\<close>

theorem compare_ties_last_wins:
  assumes "compare w repos = Inr out"
    and "successful = filter succeeded (map (compare_item w) repos)"
    and "successful \<noteq> []"
  shows "((\<forall>r\<in>set successful. finite_number (get r ''stars'')) \<longrightarrow>
            (\<exists>i. last_greatest (\<lambda>r. number_of (get r ''stars'')) successful i
               \<and> get (get out ''comparison'') ''mostStars'' = get (successful ! i) ''fullName''))
       \<and> ((\<forall>r\<in>set successful. finite_number (get r ''forks'')) \<longrightarrow>
            (\<exists>i. last_greatest (\<lambda>r. number_of (get r ''forks'')) successful i
               \<and> get (get out ''comparison'') ''mostForks'' = get (successful ! i) ''fullName''))
       \<and> ((\<forall>r\<in>set successful. pushed_time w r \<noteq> None) \<longrightarrow>
            (\<exists>i. last_greatest (\<lambda>r. the (pushed_time w r)) successful i
               \<and> get (get out ''comparison'') ''mostRecent'' = get (successful ! i) ''fullName''))"
proof -
  from assms(1) obtain c where c: "comparison w successful = Inr c"
    and out: "get out ''comparison'' = c"
    unfolding assms(2) by (elim compare_InrD) simp
  from c obtain s f r where
    s: "reduce (more_stars w) (first successful) successful = Inr s"
    and f: "reduce (more_forks w) (first successful) successful = Inr f"
    and r: "reduce (more_recent w) (first successful) successful = Inr r"
    and cs: "get c ''mostStars'' = opt_chain s ''fullName''"
      "get c ''mostForks'' = opt_chain f ''fullName''"
      "get c ''mostRecent'' = opt_chain r ''fullName''"
    by (elim comparison_InrD) simp
  have nn: "\<not> nullish x" if "x \<in> set successful" for x
    using that succeeded_not_nullish unfolding assms(2) by auto
  have nth: "\<not> nullish (successful ! i)" if "last_greatest k successful i" for i and k :: "jsval \<Rightarrow> 'k::linorder"
    using that nn unfolding last_greatest_def by simp
  have stars: "\<exists>i. last_greatest (\<lambda>r. number_of (get r ''stars'')) successful i
               \<and> get (get out ''comparison'') ''mostStars'' = get (successful ! i) ''fullName''"
    if h: "\<forall>r\<in>set successful. finite_number (get r ''stars'')"
  proof -
    have "\<exists>i. last_greatest (\<lambda>r. number_of (get r ''stars'')) successful i
            \<and> reduce (more_stars w) (first successful) successful = Inr (successful ! i)"
      using h nn assms(3) by (intro reduce_first_last_greatest more_stars_finite) auto
    then obtain i where i: "last_greatest (\<lambda>r. number_of (get r ''stars'')) successful i"
      "s = successful ! i"
      using s by auto
    show ?thesis
      using i nth[OF i(1)] by (auto simp: out cs opt_chain_def)
  qed
  have forks: "\<exists>i. last_greatest (\<lambda>r. number_of (get r ''forks'')) successful i
               \<and> get (get out ''comparison'') ''mostForks'' = get (successful ! i) ''fullName''"
    if h: "\<forall>r\<in>set successful. finite_number (get r ''forks'')"
  proof -
    have "\<exists>i. last_greatest (\<lambda>r. number_of (get r ''forks'')) successful i
            \<and> reduce (more_forks w) (first successful) successful = Inr (successful ! i)"
      using h nn assms(3) by (intro reduce_first_last_greatest more_forks_finite) auto
    then obtain i where i: "last_greatest (\<lambda>r. number_of (get r ''forks'')) successful i"
      "f = successful ! i"
      using f by auto
    show ?thesis
      using i nth[OF i(1)] by (auto simp: out cs opt_chain_def)
  qed
  have recent: "\<exists>i. last_greatest (\<lambda>r. the (pushed_time w r)) successful i
               \<and> get (get out ''comparison'') ''mostRecent'' = get (successful ! i) ''fullName''"
    if h: "\<forall>r\<in>set successful. pushed_time w r \<noteq> None"
  proof -
    have "\<exists>i. last_greatest (\<lambda>r. the (pushed_time w r)) successful i
            \<and> reduce (more_recent w) (first successful) successful = Inr (successful ! i)"
      using h nn assms(3) by (intro reduce_first_last_greatest more_recent_valid) auto
    then obtain i where i: "last_greatest (\<lambda>r. the (pushed_time w r)) successful i"
      "r = successful ! i"
      using r by auto
    show ?thesis
      using i nth[OF i(1)] by (auto simp: out cs opt_chain_def)
  qed
  from stars forks recent show ?thesis
    by blast
qed

text \<open>Two repositories with equal stars, forks and push dates.\<close>

theorem compare_ties_last_wins_witness:
  "(\<exists>i. last_greatest (\<lambda>r. number_of (get r ''stars''))
          (filter succeeded (map (compare_item tie_world) [''a/a'', ''b/b''])) i
        \<and> get (get (returned (compare tie_world [''a/a'', ''b/b''])) ''comparison'') ''mostStars''
            = get (filter succeeded (map (compare_item tie_world) [''a/a'', ''b/b'']) ! i) ''fullName'')
   \<and> (\<exists>i. last_greatest (\<lambda>r. number_of (get r ''forks''))
          (filter succeeded (map (compare_item tie_world) [''a/a'', ''b/b''])) i
        \<and> get (get (returned (compare tie_world [''a/a'', ''b/b''])) ''comparison'') ''mostForks''
            = get (filter succeeded (map (compare_item tie_world) [''a/a'', ''b/b'']) ! i) ''fullName'')
   \<and> (\<exists>i. last_greatest (\<lambda>r. the (pushed_time tie_world r))
          (filter succeeded (map (compare_item tie_world) [''a/a'', ''b/b''])) i
        \<and> get (get (returned (compare tie_world [''a/a'', ''b/b''])) ''comparison'') ''mostRecent''
            = get (filter succeeded (map (compare_item tie_world) [''a/a'', ''b/b'']) ! i) ''fullName'')"
proof -
  note h1 = compare_returned(1)[OF tie_comparison]
  have h3: "filter succeeded (map (compare_item tie_world) [''a/a'', ''b/b'']) \<noteq> []"
    unfolding tie_successful by simp
  have s: "\<forall>r\<in>set (filter succeeded (map (compare_item tie_world) [''a/a'', ''b/b''])).
             finite_number (get r ''stars'')"
    unfolding tie_successful by (simp add: tie_a tie_b finite_number_def)
  have f: "\<forall>r\<in>set (filter succeeded (map (compare_item tie_world) [''a/a'', ''b/b''])).
             finite_number (get r ''forks'')"
    unfolding tie_successful by (simp add: tie_a tie_b finite_number_def)
  have d: "\<forall>r\<in>set (filter succeeded (map (compare_item tie_world) [''a/a'', ''b/b''])).
             pushed_time tie_world r \<noteq> None"
    unfolding tie_successful
    by (simp add: pushed_time_def new_Date_def tie_a tie_b tie_Date_parse)
  from compare_ties_last_wins[OF h1 refl h3] s f d show ?thesis
    by blast
qed

text \<open>
  Claim C4, as stated, fails: of two repositories with five stars each, the second
  listed is named, not the first.
\<close>

theorem compare_ties_counterexample:
  "get (returned (compare tie_world [''a/a'', ''b/b''])) ''comparison'' =
     JObj [(''mostStars'', JStr ''b/b''), (''mostForks'', JStr ''b/b''),
           (''mostRecent'', JStr ''b/b''), (''avgStars'', JNum (Fin 5))]
   \<and> get (returned (compare tie_world [''a/a'', ''b/b''])) ''repos'' =
       JArr [compare_item tie_world ''a/a'', compare_item tie_world ''b/b'']
   \<and> get (compare_item tie_world ''a/a'') ''fullName'' = JStr ''a/a''
   \<and> get (compare_item tie_world ''a/a'') ''stars'' = JNum (Fin 5)
   \<and> get (compare_item tie_world ''b/b'') ''fullName'' = JStr ''b/b''
   \<and> get (compare_item tie_world ''b/b'') ''stars'' = JNum (Fin 5)
   \<and> JStr ''b/b'' \<noteq> JStr ''a/a''"
  using compare_returned(2,3)[OF tie_comparison] by (simp add: tie_a tie_b)

text \<open>
  Claim C5. When at least one entry succeeded, the star counts of the successful
  entries are non-negative integers and their sum is below \<open>2^52\<close>, \<^verbatim>\<open>avgStars\<close> is
  their arithmetic mean rounded to the nearest integer, a half rounded up: it is the
  floor of the exact mean plus one half, and it is at most one half away from the exact
  mean. Below that bound the sum is exact, and the rounding of the quotient to a
  double does not move it across a half.
\<close>

theorem compare_avgStars:
  assumes "compare w repos = Inr out"
    and "successful = filter succeeded (map (compare_item w) repos)"
    and "successful \<noteq> []"
    and "\<forall>r\<in>set successful. star_count (get r ''stars'')"
    and "total_stars successful < 2 ^ 52"
  shows "get (get out ''comparison'') ''avgStars'' =
           JNum (Fin (of_int \<lfloor>mean_stars successful + 1 / 2\<rfloor>))
       \<and> \<bar>of_int \<lfloor>mean_stars successful + 1 / 2\<rfloor> - mean_stars successful\<bar> \<le> 1 / 2"
proof -
  from assms(1) obtain c where c: "comparison w successful = Inr c"
    and out: "get out ''comparison'' = c"
    unfolding assms(2) by (elim compare_InrD) simp
  have nn: "\<forall>r\<in>set successful. \<not> nullish r \<and> star_count (get r ''stars'')"
    using assms(4) succeeded_not_nullish unfolding assms(2) by auto
  from total_stars_int[OF assms(4)] obtain S where S: "0 \<le> S" "total_stars successful = of_int S"
    by blast
  from assms(5) have "(of_int S :: rat) < 2 ^ 52"
    unfolding S(2) .
  then have S52: "S < 2 ^ 52"
    by (metis of_int_less_numeral_power_cancel_iff)
  have sum: "reduce (add_stars w) (JNum (Fin 0)) successful = Inr (JNum (Fin (of_int S)))"
    using reduce_add_stars[OF nn, of 0 w] assms(5) unfolding S(2) by simp
  have len: "0 < length successful"
    using assms(3) by simp
  then have len': "(of_nat (length successful) :: rat) \<noteq> 0"
    by simp
  have "Math_round (num_div (Fin (of_int S)) (Fin (of_nat (length successful)))) =
          Fin (of_int \<lfloor>mean_stars successful + 1 / 2\<rfloor>)"
    using mean_round[OF S(1) S52 len] len' by (simp add: mean_stars_def S(2))
  with c sum have "get c ''avgStars'' = JNum (Fin (of_int \<lfloor>mean_stars successful + 1 / 2\<rfloor>))"
    by (elim comparison_InrD) (simp add: js_div_def ToNumber_def)
  with out round_half_up_near show ?thesis
    by simp
qed

text \<open>The star counts 10, 30 and 50: the mean is 90 / 3 and \<^verbatim>\<open>avgStars\<close> is 30.\<close>

theorem compare_avgStars_witness:
  "get (get (returned (compare three_world [''a/a'', ''b/b'', ''c/c''])) ''comparison'') ''avgStars''
     = JNum (Fin (of_int \<lfloor>mean_stars (filter succeeded
          (map (compare_item three_world) [''a/a'', ''b/b'', ''c/c''])) + 1 / 2\<rfloor>))
   \<and> mean_stars (filter succeeded (map (compare_item three_world) [''a/a'', ''b/b'', ''c/c''])) = 90 / 3
   \<and> get (get (returned (compare three_world [''a/a'', ''b/b'', ''c/c''])) ''comparison'') ''avgStars''
     = JNum (Fin 30)"
proof -
  note h1 = compare_returned(1)[OF three_comparison]
  have h3: "filter succeeded (map (compare_item three_world) [''a/a'', ''b/b'', ''c/c'']) \<noteq> []"
    unfolding three_successful by simp
  have s: "\<forall>r\<in>set (filter succeeded (map (compare_item three_world) [''a/a'', ''b/b'', ''c/c''])).
             star_count (get r ''stars'')"
    unfolding three_successful by (simp add: three_a three_b three_c star_count_def)
  have t: "total_stars (filter succeeded (map (compare_item three_world) [''a/a'', ''b/b'', ''c/c''])) = 90"
    unfolding three_successful by (simp add: total_stars_def number_of_def three_a three_b three_c)
  have b: "total_stars (filter succeeded (map (compare_item three_world) [''a/a'', ''b/b'', ''c/c''])) < 2 ^ 52"
    unfolding t by simp
  have m: "mean_stars (filter succeeded (map (compare_item three_world) [''a/a'', ''b/b'', ''c/c''])) = 90 / 3"
    unfolding mean_stars_def t unfolding three_successful by simp
  have a: "get (get (returned (compare three_world [''a/a'', ''b/b'', ''c/c''])) ''comparison'') ''avgStars''
     = JNum (Fin (of_int \<lfloor>mean_stars (filter succeeded
          (map (compare_item three_world) [''a/a'', ''b/b'', ''c/c''])) + 1 / 2\<rfloor>))"
    using compare_avgStars[OF h1 refl h3 s b] by (rule conjunct1)
  have "get (get (returned (compare three_world [''a/a'', ''b/b'', ''c/c''])) ''comparison'') ''avgStars''
     = JNum (Fin 30)"
    by (simp add: compare_returned(2)[OF three_comparison])
  with a m show ?thesis
    by blast
qed

text \<open>
  Claim C10. In what the handler returns, \<^verbatim>\<open>count\<close> is the number of requested names,
  \<^verbatim>\<open>repos\<close> has one entry for each requested name, and every entry has either the
  status \<^verbatim>\<open>success\<close> or the status \<^verbatim>\<open>error\<close>: the two counts add up to \<^verbatim>\<open>count\<close>.
\<close>

theorem compare_count:
  assumes "compare w repos = Inr out"
  shows "get out ''count'' = JNum (Fin (of_nat (length repos)))
       \<and> (\<exists>entries. get out ''repos'' = JArr entries \<and> length entries = length repos
            \<and> (\<forall>i<length repos. entries ! i = compare_item w (repos ! i))
            \<and> length (filter succeeded entries)
                + length (filter (\<lambda>r. get r ''status'' = JStr ''error'') entries)
                = length repos)"
proof -
  have "filter (\<lambda>r. get r ''status'' = JStr ''error'') (map (compare_item w) repos)
          = filter (\<lambda>r. \<not> succeeded r) (map (compare_item w) repos)"
    by (rule filter_cong) (use compare_item_status in auto)
  then have "length (filter succeeded (map (compare_item w) repos))
      + length (filter (\<lambda>r. get r ''status'' = JStr ''error'') (map (compare_item w) repos))
      = length repos"
    using sum_length_filter_compl[of succeeded "map (compare_item w) repos"] by simp
  with assms show ?thesis
    by (elim compare_InrD) simp
qed

text \<open>One failure and one success: the count is 2.\<close>

theorem compare_count_witness:
  "get (returned (compare partial_world [''a/a'', ''b/b''])) ''count'' =
       JNum (Fin (of_nat (length [''a/a'', ''b/b''])))
   \<and> (\<exists>entries. get (returned (compare partial_world [''a/a'', ''b/b''])) ''repos'' = JArr entries
         \<and> length entries = length [''a/a'', ''b/b'']
         \<and> (\<forall>i<length [''a/a'', ''b/b'']. entries ! i = compare_item partial_world ([''a/a'', ''b/b''] ! i))
         \<and> length (filter succeeded entries)
             + length (filter (\<lambda>r. get r ''status'' = JStr ''error'') entries)
             = length [''a/a'', ''b/b''])
   \<and> get (returned (compare partial_world [''a/a'', ''b/b''])) ''count'' = JNum (Fin 2)"
proof -
  note h = compare_returned(1)[OF partial_comparison]
  from compare_count[OF h] show ?thesis
    by simp
qed

section \<open>Properties of \<^verbatim>\<open>formatRepo\<close>\<close>

lemma js_or_defined: "b \<noteq> JUndefined \<Longrightarrow> js_or a b \<noteq> JUndefined"
  by (cases a) (auto simp: js_or_def)

lemma js_or_undefined: "js_or JUndefined b = b"
  by (simp add: js_or_def)

lemma formatRepo_Inr:
  assumes "\<not> nullish repo"
  shows "formatRepo w repo = 
     Inr (JObj
         [(''fullName'', get repo ''full_name''),
          (''name'', get repo ''name''),
          (''owner'', opt_chain (get repo ''owner'') ''login''),
          (''description'', get repo ''description''),
          (''stars'', get repo ''stargazers_count''),
          (''forks'', get repo ''forks_count''),
          (''watchers'', get repo ''watchers_count''),
          (''openIssues'', get repo ''open_issues_count''),
          (''language'', get repo ''language''),
          (''topics'', js_or (get repo ''topics'') (JArr [])),
          (''license'', js_or (opt_chain (get repo ''license'') ''spdx_id'') JNull),
          (''createdAt'', get repo ''created_at''),
          (''updatedAt'', get repo ''updated_at''),
          (''pushedAt'', get repo ''pushed_at''),
          (''defaultBranch'', get repo ''default_branch''),
          (''homepage'', js_or (get repo ''homepage'') JNull),
          (''url'', get repo ''html_url''),
          (''isArchived'', get repo ''archived''),
          (''isFork'', get repo ''fork'')])"
  using assms by (simp add: formatRepo_def get_member_def)


text \<open>What the JSON of an object holds at a key: nothing when the value is undefined.\<close>

lemma as_json_defined: "v \<noteq> JUndefined \<Longrightarrow> as_json v \<noteq> JUndefined"
  by (cases v) (simp_all split: jsnum.splits)

lemma map_of_json_fields:
  assumes "distinct (map fst kvs)"
  shows "map_of (json_fields kvs) k =
           (case map_of kvs k of
              None \<Rightarrow> None
            | Some v \<Rightarrow> if v = JUndefined then None else Some (as_json v))"
  using assms
proof (induction kvs)
  case Nil
  then show ?case
    by simp
next
  case (Cons kv kvs)
  from Cons.prems have "map_of kvs (fst kv) = None"
    by (simp add: map_of_eq_None_iff)
  with Cons show ?case
    by (cases kv) auto
qed

lemma get_as_json:
  assumes "distinct (map fst kvs)"
  shows "get (as_json (JObj kvs)) k =
           (if get (JObj kvs) k = JUndefined then JUndefined else as_json (get (JObj kvs) k))"
  by (simp add: map_of_json_fields[OF assms] split: option.splits)

text \<open>
  Claim C2, as the code has it. \<^verbatim>\<open>formatRepo\<close> throws a TypeError on null and
  undefined, and on nothing else. On any other record it returns the object written
  below: nineteen keys, always the same. \<^verbatim>\<open>topics\<close>, \<^verbatim>\<open>license\<close> and \<^verbatim>\<open>homepage\<close>
  are never undefined: missing topics give the empty list, a missing license object
  gives null, a missing homepage gives null. The other sixteen fields are passed through
  as the record has them: a missing owner gives an undefined login, not null, and a
  field the record does not have is undefined. In the JSON a client reads, a key is
  there exactly when its value is not undefined.
\<close>

theorem formatRepo_defaults:
  "(nullish repo \<longrightarrow> (\<exists>m. formatRepo w repo = Inl (TypeError m)))
   \<and> (\<not> nullish repo \<longrightarrow>
        (\<exists>out. formatRepo w repo = Inr out
           \<and> out = JObj
               [(''fullName'', get repo ''full_name''),
                (''name'', get repo ''name''),
                (''owner'', opt_chain (get repo ''owner'') ''login''),
                (''description'', get repo ''description''),
                (''stars'', get repo ''stargazers_count''),
                (''forks'', get repo ''forks_count''),
                (''watchers'', get repo ''watchers_count''),
                (''openIssues'', get repo ''open_issues_count''),
                (''language'', get repo ''language''),
                (''topics'', js_or (get repo ''topics'') (JArr [])),
                (''license'', js_or (opt_chain (get repo ''license'') ''spdx_id'') JNull),
                (''createdAt'', get repo ''created_at''),
                (''updatedAt'', get repo ''updated_at''),
                (''pushedAt'', get repo ''pushed_at''),
                (''defaultBranch'', get repo ''default_branch''),
                (''homepage'', js_or (get repo ''homepage'') JNull),
                (''url'', get repo ''html_url''),
                (''isArchived'', get repo ''archived''),
                (''isFork'', get repo ''fork'')]
           \<and> map fst (spread out) = formatRepo_keys
           \<and> get out ''topics'' \<noteq> JUndefined
           \<and> get out ''license'' \<noteq> JUndefined
           \<and> get out ''homepage'' \<noteq> JUndefined
           \<and> (get repo ''topics'' = JUndefined \<longrightarrow> get out ''topics'' = JArr [])
           \<and> (get repo ''license'' = JUndefined \<longrightarrow> get out ''license'' = JNull)
           \<and> (get repo ''homepage'' = JUndefined \<longrightarrow> get out ''homepage'' = JNull)
           \<and> (get repo ''owner'' = JUndefined \<longrightarrow> get out ''owner'' = JUndefined)
           \<and> (\<forall>k. get (as_json out) k =
                 (if get out k = JUndefined then JUndefined else as_json (get out k)))))"
proof (cases "nullish repo")
  case True
  then show ?thesis
    by (simp add: formatRepo_def get_member_def)
next
  case False
  define out where "out = returned (formatRepo w repo)"
  have out: "out = JObj
               [(''fullName'', get repo ''full_name''),
                (''name'', get repo ''name''),
                (''owner'', opt_chain (get repo ''owner'') ''login''),
                (''description'', get repo ''description''),
                (''stars'', get repo ''stargazers_count''),
                (''forks'', get repo ''forks_count''),
                (''watchers'', get repo ''watchers_count''),
                (''openIssues'', get repo ''open_issues_count''),
                (''language'', get repo ''language''),
                (''topics'', js_or (get repo ''topics'') (JArr [])),
                (''license'', js_or (opt_chain (get repo ''license'') ''spdx_id'') JNull),
                (''createdAt'', get repo ''created_at''),
                (''updatedAt'', get repo ''updated_at''),
                (''pushedAt'', get repo ''pushed_at''),
                (''defaultBranch'', get repo ''default_branch''),
                (''homepage'', js_or (get repo ''homepage'') JNull),
                (''url'', get repo ''html_url''),
                (''isArchived'', get repo ''archived''),
                (''isFork'', get repo ''fork'')]"
    unfolding out_def formatRepo_Inr[OF False] by simp
  have ret: "formatRepo w repo = Inr out"
    unfolding out formatRepo_Inr[OF False] by simp
  have keys: "map fst (spread out) = formatRepo_keys"
    unfolding out by (simp add: formatRepo_keys_def)
  have defaults: "get out ''topics'' \<noteq> JUndefined" "get out ''license'' \<noteq> JUndefined"
    "get out ''homepage'' \<noteq> JUndefined"
    "get repo ''topics'' = JUndefined \<longrightarrow> get out ''topics'' = JArr []"
    "get repo ''license'' = JUndefined \<longrightarrow> get out ''license'' = JNull"
    "get repo ''homepage'' = JUndefined \<longrightarrow> get out ''homepage'' = JNull"
    "get repo ''owner'' = JUndefined \<longrightarrow> get out ''owner'' = JUndefined"
    unfolding out by (simp_all add: js_or_defined js_or_undefined opt_chain_def)
  have "distinct formatRepo_keys"
    by (simp add: formatRepo_keys_def)
  then have json: "\<forall>k. get (as_json out) k =
                 (if get out k = JUndefined then JUndefined else as_json (get out k))"
    unfolding keys[symmetric] out by (intro allI get_as_json) simp
  from False ret out keys defaults json show ?thesis
    by blast
qed

text \<open>Null, and a record with a name only.\<close>

theorem formatRepo_defaults_witness:
  "(\<exists>m. formatRepo (example_world [] [] 0) JNull = Inl (TypeError m))
   \<and> (\<exists>out. formatRepo (example_world [] [] 0) (JObj [(''full_name'', JStr ''a/a'')]) = Inr out
           \<and> map fst (spread out) = formatRepo_keys
           \<and> get out ''topics'' = JArr []
           \<and> get out ''license'' = JNull
           \<and> get out ''homepage'' = JNull
           \<and> get out ''owner'' = JUndefined
           \<and> get out ''fullName'' = JStr ''a/a''
           \<and> get out ''stars'' = JUndefined
           \<and> get (as_json out) ''fullName'' = JStr ''a/a''
           \<and> get (as_json out) ''stars'' = JUndefined)"
  using formatRepo_defaults[of JNull "example_world [] [] 0"]
    formatRepo_defaults[of "JObj [(''full_name'', JStr ''a/a'')]" "example_world [] [] 0"]
  by (simp add: js_or_def opt_chain_def formatRepo_keys_def)

text \<open>
  Claim C2, as stated, fails: for the record with no field, the login of the owner is
  undefined, not null, and sixteen of the nineteen keys are missing from the JSON a
  client reads.
\<close>

theorem formatRepo_counterexample:
  "formatRepo (example_world [] [] 0) (JObj []) =
     Inr (JObj
       [(''fullName'', JUndefined), (''name'', JUndefined), (''owner'', JUndefined),
        (''description'', JUndefined), (''stars'', JUndefined), (''forks'', JUndefined),
        (''watchers'', JUndefined), (''openIssues'', JUndefined), (''language'', JUndefined),
        (''topics'', JArr []), (''license'', JNull), (''createdAt'', JUndefined),
        (''updatedAt'', JUndefined), (''pushedAt'', JUndefined),
        (''defaultBranch'', JUndefined), (''homepage'', JNull), (''url'', JUndefined),
        (''isArchived'', JUndefined), (''isFork'', JUndefined)])
   \<and> get (returned (formatRepo (example_world [] [] 0) (JObj []))) ''owner'' = JUndefined
   \<and> JUndefined \<noteq> JNull
   \<and> as_json (returned (formatRepo (example_world [] [] 0) (JObj []))) =
       JObj [(''topics'', JArr []), (''license'', JNull), (''homepage'', JNull)]"
  by (simp add: formatRepo_Inr js_or_def opt_chain_def)

section \<open>Properties of \<^verbatim>\<open>overview\<close>\<close>

lemma map_try_length: "map_try f xs = Inr ys \<Longrightarrow> length ys = length xs"
  by (induction xs arbitrary: ys) (auto simp: then_do_Inr)

lemma map_try_total:
  "(\<forall>x\<in>set xs. \<exists>y. f x = Inr y) \<Longrightarrow> \<exists>ys. map_try f xs = Inr ys"
  by (induction xs) auto

lemma overview_sample_total:
  "sample_item r \<Longrightarrow> \<exists>y. overview_sample w r = Inr y"
  by (cases "get r ''description''")
     (auto simp: sample_item_def overview_sample_def get_member_def)

text \<open>
  Claim C9. The entrypoint is registered with the price 0. When the upstream search
  answered with a list of items, every output of the handler has a \<^verbatim>\<open>sampleTrending\<close>
  of three entries when there are at least three items, and of as many entries as there
  are items otherwise; and the handler does return when the first three items are
  records it can sample.
\<close>

theorem overview_three_samples:
  assumes "fetchGitHub w overview_path = Inr data"
    and "get data ''items'' = JArr items"
  shows "overview_price = 0
       \<and> (\<forall>out. overview w = Inr out \<longrightarrow>
            (\<exists>samples. get out ''sampleTrending'' = JArr samples
               \<and> length samples = min 3 (length items)))
       \<and> ((\<forall>r\<in>set (take 3 items). sample_item r) \<longrightarrow> (\<exists>out. overview w = Inr out))"
proof -
  have nn: "\<not> nullish data"
    using assms(2) by (cases data) auto
  have ov: "overview w =
      then_do (map_try (overview_sample w) (take 3 items)) (\<lambda>samples.
        Inr (JObj
         [(''agent'', JStr ''github-dev-intel''),
          (''version'', JStr ''1.0.0''),
          (''description'', JStr ''GitHub intelligence for AI agents''),
          (''dataSource'', JStr ''GitHub API (live)''),
          (''sampleTrending'', JArr samples),
          (''endpoints'', endpoints),
          (''fetchedAt'', JStr (iso_date (Date_now w 0) @ ''T'' @ iso_time (Date_now w 0)))]))"
    using assms nn
    by (cases "map_try (overview_sample w) (take 3 items)")
       (simp_all add: overview_def get_member_def toISOString_Some)
  have a: "\<exists>samples. get out ''sampleTrending'' = JArr samples
               \<and> length samples = min 3 (length items)" if "overview w = Inr out" for out
  proof -
    from that obtain samples where s: "map_try (overview_sample w) (take 3 items) = Inr samples"
      and o: "get out ''sampleTrending'' = JArr samples"
      unfolding ov then_do_Inr by auto
    from map_try_length[OF s] o show ?thesis
      by (simp add: min.commute)
  qed
  have b: "\<exists>out. overview w = Inr out" if "\<forall>r\<in>set (take 3 items). sample_item r"
  proof -
    have "\<forall>r\<in>set (take 3 items). \<exists>y. overview_sample w r = Inr y"
      using that overview_sample_total by blast
    from map_try_total[OF this] show ?thesis
      unfolding ov by auto
  qed
  from a b show ?thesis
    by (simp add: overview_price_def)
qed

lemma overview_world_fetch:
  "fetchGitHub (overview_world items) overview_path =
     Inr (JObj [(''total_count'', JNum (Fin (of_nat (length items)))), (''items'', JArr items)])"
  by (simp add: overview_world_def fetchGitHub_example)

lemma sample_item_search_item: "sample_item (search_item i)"
  by (simp add: sample_item_def search_item_def)

text \<open>Five items upstream give three samples, two items give two.\<close>

theorem overview_three_samples_witness:
  "overview_price = 0
   \<and> (\<exists>out samples.
        overview (overview_world (map search_item [0, 1, 2, 3, 4])) = Inr out
        \<and> get out ''sampleTrending'' = JArr samples \<and> length samples = 3)
   \<and> (\<exists>out samples.
        overview (overview_world (map search_item [0, 1])) = Inr out
        \<and> get out ''sampleTrending'' = JArr samples \<and> length samples = 2)"
proof -
  have i: "get (JObj [(''total_count'', JNum (Fin (of_nat (length items)))), (''items'', JArr items)])
             ''items'' = JArr items" for items
    by simp
  note five = overview_three_samples[OF overview_world_fetch i, of "map search_item [0, 1, 2, 3, 4]"]
  note two = overview_three_samples[OF overview_world_fetch i, of "map search_item [0, 1]"]
  have "\<exists>out. overview (overview_world (map search_item [0, 1, 2, 3, 4])) = Inr out"
    using five by (simp add: sample_item_search_item)
  moreover have "\<exists>out. overview (overview_world (map search_item [0, 1])) = Inr out"
    using two by (simp add: sample_item_search_item)
  ultimately show ?thesis
    using five two by (auto simp: overview_price_def)
qed

section \<open>Properties of \<^verbatim>\<open>repo-stats\<close>\<close>

lemma repo_stats_output_InrD:
  assumes "repo_stats_output w d c l = Inr out"
  shows "get out ''languages'' = l"
    and "\<exists>top. slice0 w c 5 = Inr top \<and> array_map w (contributor w) top = Inr (get out ''topContributors'')"
proof -
  from assms obtain f top tc where f: "formatRepo w d = Inr f"
    and top: "slice0 w c 5 = Inr top"
    and tc: "array_map w (contributor w) top = Inr tc"
    and out: "out = JObj
         (spread f
          @ [(''size'', get d ''size''),
             (''hasWiki'', get d ''has_wiki''),
             (''hasPages'', get d ''has_pages''),
             (''hasDownloads'', get d ''has_downloads''),
             (''subscribersCount'', get d ''subscribers_count''),
             (''networkCount'', get d ''network_count''),
             (''languages'', l),
             (''topContributors'', tc),
             (''fetchedAt'', JStr (iso_date (Date_now w 0) @ ''T'' @ iso_time (Date_now w 0)))])"
    unfolding repo_stats_output_def then_do_Inr toISOString_Some by auto
  show "get out ''languages'' = l"
    unfolding out formatRepo_InrD(1)[OF f] by simp
  have "get out ''topContributors'' = tc"
    unfolding out formatRepo_InrD(1)[OF f] by simp
  with top tc
  show "\<exists>top. slice0 w c 5 = Inr top \<and> array_map w (contributor w) top = Inr (get out ''topContributors'')"
    by simp
qed

lemma repo_stats_output_no_contributors:
  assumes "\<not> nullish d"
  shows "\<exists>out. repo_stats_output w d (JArr []) l = Inr out"
  using assms by (simp add: repo_stats_output_def formatRepo_Inr toISOString_Some)

text \<open>
  Claim C8. When the call for the repository record fails with \<open>e\<close>, the handler
  fails with \<open>e\<close>. When the call for the contributors fails, the handler does what
  it does for an upstream that answered with the empty list: \<^verbatim>\<open>topContributors\<close> is
  empty, and the handler returns for every record that is not null. When the call for
  the languages fails, the handler does what it does for an upstream that answered with
  the empty object: \<^verbatim>\<open>languages\<close> is \<^verbatim>\<open>{}\<close>.
\<close>

theorem repo_stats_failures:
  "(fetchGitHub w (''/repos/'' @ repo) = Inl e \<longrightarrow> repo_stats w repo = Inl e)
   \<and> (fetchGitHub w (''/repos/'' @ repo) = Inr d
        \<and> fetchGitHub w (''/repos/'' @ repo @ ''/contributors?per_page=10'') = Inl e1 \<longrightarrow>
        repo_stats w repo =
          repo_stats_output w d (JArr [])
            (catch (fetchGitHub w (''/repos/'' @ repo @ ''/languages'')) (JObj []))
        \<and> (\<forall>out. repo_stats w repo = Inr out \<longrightarrow> get out ''topContributors'' = JArr [])
        \<and> (\<not> nullish d \<longrightarrow> (\<exists>out. repo_stats w repo = Inr out)))
   \<and> (fetchGitHub w (''/repos/'' @ repo) = Inr d
        \<and> fetchGitHub w (''/repos/'' @ repo @ ''/languages'') = Inl e2 \<longrightarrow>
        repo_stats w repo =
          repo_stats_output w d
            (catch (fetchGitHub w (''/repos/'' @ repo @ ''/contributors?per_page=10'')) (JArr []))
            (JObj [])
        \<and> (\<forall>out. repo_stats w repo = Inr out \<longrightarrow> get out ''languages'' = JObj []))"
proof -
  have a: "repo_stats w repo = Inl e" if "fetchGitHub w (''/repos/'' @ repo) = Inl e"
    using that by (simp add: repo_stats_def)
  have b: "repo_stats w repo =
          repo_stats_output w d (JArr [])
            (catch (fetchGitHub w (''/repos/'' @ repo @ ''/languages'')) (JObj []))
        \<and> (\<forall>out. repo_stats w repo = Inr out \<longrightarrow> get out ''topContributors'' = JArr [])
        \<and> (\<not> nullish d \<longrightarrow> (\<exists>out. repo_stats w repo = Inr out))"
    if "fetchGitHub w (''/repos/'' @ repo) = Inr d"
      and "fetchGitHub w (''/repos/'' @ repo @ ''/contributors?per_page=10'') = Inl e1"
  proof -
    have eq: "repo_stats w repo =
          repo_stats_output w d (JArr [])
            (catch (fetchGitHub w (''/repos/'' @ repo @ ''/languages'')) (JObj []))"
      using that by (simp add: repo_stats_def)
    have "get out ''topContributors'' = JArr []" if "repo_stats w repo = Inr out" for out
      using repo_stats_output_InrD(2)[OF that[unfolded eq]] by auto
    with eq repo_stats_output_no_contributors show ?thesis
      by simp
  qed
  have c: "repo_stats w repo =
          repo_stats_output w d
            (catch (fetchGitHub w (''/repos/'' @ repo @ ''/contributors?per_page=10'')) (JArr []))
            (JObj [])
        \<and> (\<forall>out. repo_stats w repo = Inr out \<longrightarrow> get out ''languages'' = JObj [])"
    if "fetchGitHub w (''/repos/'' @ repo) = Inr d"
      and "fetchGitHub w (''/repos/'' @ repo @ ''/languages'') = Inl e2"
  proof -
    have eq: "repo_stats w repo =
          repo_stats_output w d
            (catch (fetchGitHub w (''/repos/'' @ repo @ ''/contributors?per_page=10'')) (JArr []))
            (JObj [])"
      using that by (simp add: repo_stats_def)
    have "get out ''languages'' = JObj []" if "repo_stats w repo = Inr out" for out
      using repo_stats_output_InrD(1)[OF that[unfolded eq]] .
    with eq show ?thesis
      by simp
  qed
  from a b c show ?thesis
    by blast
qed

text \<open>An unknown repository; a known one whose contributors and languages are unknown.\<close>

theorem repo_stats_failures_witness:
  "repo_stats partial_world ''a/a'' = Inl (Error ''GitHub API error: 404 - Not Found'')
   \<and> (\<exists>out. repo_stats tie_world ''a/a'' = Inr out
         \<and> get out ''topContributors'' = JArr [] \<and> get out ''languages'' = JObj [])"
proof -
  have p: "fetchGitHub partial_world (''/repos/'' @ ''a/a'') =
             Inl (Error ''GitHub API error: 404 - Not Found'')"
    by (simp add: partial_world_def fetchGitHub_example)
  have r: "fetchGitHub tie_world (''/repos/'' @ ''a/a'') =
             Inr (raw_repo ''a/a'' 5 1 ''2026-01-02T00:00:00Z'')"
    by (simp add: tie_world_def fetchGitHub_example)
  have c: "fetchGitHub tie_world (''/repos/'' @ ''a/a'' @ ''/contributors?per_page=10'') =
             Inl (Error ''GitHub API error: 404 - Not Found'')"
    by (simp add: tie_world_def fetchGitHub_example)
  have l: "fetchGitHub tie_world (''/repos/'' @ ''a/a'' @ ''/languages'') =
             Inl (Error ''GitHub API error: 404 - Not Found'')"
    by (simp add: tie_world_def fetchGitHub_example)
  have n: "\<not> nullish (raw_repo ''a/a'' 5 1 ''2026-01-02T00:00:00Z'')"
    by (simp add: raw_repo_def)
  from repo_stats_failures[of partial_world "''a/a''" "Error ''GitHub API error: 404 - Not Found''"] p
  have "repo_stats partial_world ''a/a'' = Inl (Error ''GitHub API error: 404 - Not Found'')"
    by blast
  moreover
  from repo_stats_failures[of tie_world "''a/a''" _ "raw_repo ''a/a'' 5 1 ''2026-01-02T00:00:00Z''"
      "Error ''GitHub API error: 404 - Not Found''" "Error ''GitHub API error: 404 - Not Found''"]
    r c l n
  have "\<exists>out. repo_stats tie_world ''a/a'' = Inr out
         \<and> get out ''topContributors'' = JArr [] \<and> get out ''languages'' = JObj []"
    by blast
  ultimately show ?thesis
    by blast
qed

section \<open>Properties of the query builders\<close>








section \<open>Properties of dates and of the trending query\<close>









































end
